theory Spec2Isabelle
  imports Complex_Main "HOL-Library.Word" "HOL-Library.Log_Nat"
begin

unbundle bit_operations_syntax

section \<open>JavaScript numbers\<close>

text \<open>
  The bucketing code of \<^verbatim>\<open>assets/site.js\<close> computes with JavaScript numbers, which are
  IEEE 754 binary64 values. A finite number is carried here by its exact rational value,
  and every arithmetic operation of the source is followed by \<open>fl\<close>, the rounding to the
  nearest binary64 value with ties to the even significand (53 significant bits, smallest
  exponent -1022, so subnormal values are covered). Overflow to Infinity (results of
  magnitude above about 1.7e308) and NaN are outside this model.
\<close>

definition rne :: "rat \<Rightarrow> int" where
  "rne x = (let f = \<lfloor>x\<rfloor>; d = x - of_int f in
     if d < 1 / 2 then f
     else if 1 / 2 < d then f + 1
     else if even f then f else f + 1)"

text \<open>For \<open>0 < x\<close>, \<open>binade x\<close> is the exponent \<open>e\<close> with \<open>2 ^ e \<le> x < 2 ^ (e + 1)\<close>.\<close>

definition binade :: "rat \<Rightarrow> int" where
  "binade x = (case quotient_of x of (a, b) \<Rightarrow>
     (let d = bitlen a - bitlen b in if 2 powi d \<le> x then d else d - 1))"

definition fl :: "rat \<Rightarrow> rat" where
  "fl x = (if x = 0 then 0 else
     (let m = \<bar>x\<bar>; e = max (binade m) (- 1022); u = 2 powi (e - 52)
      in sgn x * of_int (rne (m / u)) * u))"

section \<open>Deterministic experiment bucketing (assets/site.js, class ABTestManager)\<close>

datatype js_error = TypeError | SyntaxError

text \<open>
  A variant of an experiment configuration, as in
  \<^verbatim>\<open>'control': { weight: 50, name: 'Original Layout' }\<close>. The variants of an experiment
  are the list \<^verbatim>\<open>Object.entries(variants)\<close>, in its order.
\<close>

record variant =
  weight :: rat
  name :: string

type_synonym variants = "(string \<times> variant) list"

text \<open>
  The fields of the manager object that exist when \<^verbatim>\<open>selectVariantForUser\<close> runs.
  \<^verbatim>\<open>getUserId\<close> returns null when local storage is unavailable.
\<close>

record abTestManager =
  sessionId :: string
  userId :: "string option"
  userAssignments :: "(string \<times> string) list"
  exposureTracked :: "string list"

text \<open>
  \<^verbatim>\<open>hashString\<close>: the loop body is
  \<^verbatim>\<open>hash = ((hash << 5) - hash) + char; hash = hash & hash\<close>.
  \<^verbatim>\<open><<\<close> and \<^verbatim>\<open>&\<close> yield 32-bit integers, the subtraction and addition between
  them are exact on numbers of this size, and the conversion to 32 bits is a ring
  homomorphism, so after each iteration \<open>hash\<close> is the 32-bit word computed here.
  \<^verbatim>\<open>Math.abs\<close> is applied to its signed reading.
\<close>

fun hashLoop :: "32 word \<Rightarrow> string \<Rightarrow> 32 word" where
  "hashLoop hash [] = hash"
| "hashLoop hash (c # cs) = hashLoop ((push_bit 5 hash - hash) + of_nat (of_char c)) cs"

definition hashString :: "string \<Rightarrow> int" where
  "hashString str = \<bar>sint (hashLoop 0 str)\<bar>"

text \<open>\<^verbatim>\<open>this.userId + 'variant_selection'\<close>: a null id is rendered as \<^verbatim>\<open>null\<close>.\<close>

definition selectionKey :: "abTestManager \<Rightarrow> string" where
  "selectionKey this =
     (case userId this of None \<Rightarrow> ''null'' | Some u \<Rightarrow> u) @ ''variant_selection''"

text \<open>\<^verbatim>\<open>const randomValue = (hash % 10000) / 10000\<close>; the hash is not negative, so
  \<^verbatim>\<open>%\<close> is \<open>mod\<close>.\<close>

definition randomValue :: "abTestManager \<Rightarrow> rat" where
  "randomValue this = fl (of_int (hashString (selectionKey this) mod 10000) / 10000)"

text \<open>The \<^verbatim>\<open>for\<close> loop over the entries; \<open>None\<close> when it ends without returning.\<close>

fun selectLoop :: "rat \<Rightarrow> rat \<Rightarrow> variants \<Rightarrow> (string \<times> variant) option" where
  "selectLoop r cumulativeWeight [] = None"
| "selectLoop r cumulativeWeight ((key, v) # rest) =
     (let cumulativeWeight' = fl (cumulativeWeight + fl (weight v / 100))
      in if r \<le> cumulativeWeight' then Some (key, v)
         else selectLoop r cumulativeWeight' rest)"

text \<open>
  The result \<^verbatim>\<open>{ key, ...variant }\<close> is the pair of the key and the variant. After the
  loop the source destructures \<^verbatim>\<open>variantEntries[0]\<close>, which throws a TypeError when
  there is no entry.
\<close>

definition selectVariantForUser :: "abTestManager \<Rightarrow> variants \<Rightarrow> js_error + string \<times> variant" where
  "selectVariantForUser this vs =
     (case selectLoop (randomValue this) 0 vs of
        Some kv \<Rightarrow> Inr kv
      | None \<Rightarrow> (case vs of [] \<Rightarrow> Inl TypeError | first # _ \<Rightarrow> Inr first))"

text \<open>The value of \<^verbatim>\<open>cumulativeWeight\<close> after the first \<open>n\<close> entries have been added.\<close>

definition cumulativeWeightAfter :: "variants \<Rightarrow> nat \<Rightarrow> rat" where
  "cumulativeWeightAfter vs n =
     foldl (\<lambda>c kv. fl (c + fl (weight (snd kv) / 100))) 0 (take n vs)"

section \<open>Client-side event queue (assets/server-tracking.js, class ServerTracker)\<close>

text \<open>
  A queued event: its name and key/value payload, and the \<^verbatim>\<open>_retryCount\<close> property that
  \<^verbatim>\<open>flushQueue\<close> sets on an event after a failed send (absent on a new event). The page
  context that \<^verbatim>\<open>track\<close> copies into every event plays no part in queueing.
\<close>

record event =
  ev_name :: string
  ev_data :: "(string \<times> string) list"
  ev_retryCount :: "nat option"

record serverTracker =
  batchSize :: nat
  flushInterval :: nat
  maxRetries :: nat
  retryDelay :: nat
  eventQueue :: "event list"
  isOnline :: bool
  flushTimer :: bool

text \<open>The constructor, given \<^verbatim>\<open>navigator.onLine\<close>; \<^verbatim>\<open>init\<close> starts the flush timer.\<close>

definition newServerTracker :: "bool \<Rightarrow> serverTracker" where
  "newServerTracker onLine =
     \<lparr>batchSize = 10, flushInterval = 30000, maxRetries = 3, retryDelay = 1000,
      eventQueue = [], isOnline = onLine, flushTimer = True\<rparr>"

text \<open>The body handed to \<^verbatim>\<open>sendSync\<close> or \<^verbatim>\<open>sendAsync\<close>.\<close>

record trackPayload =
  events :: "event list"
  batch :: bool

text \<open>
  \<^verbatim>\<open>flushQueue(isSync)\<close> up to the point where the send is started: the batch is cut
  off the front of the queue and handed to \<^verbatim>\<open>sendSync\<close> or \<^verbatim>\<open>sendAsync\<close>, unless
  the queue is empty or the tracker is offline. The result is the tracker and the send
  started, if any: the flag \<open>isSync\<close> and the payload.
\<close>

definition flushQueue :: "serverTracker \<Rightarrow> bool \<Rightarrow>
    serverTracker \<times> (bool \<times> trackPayload) option" where
  "flushQueue this isSync =
     (if eventQueue this = [] \<or> \<not> isOnline this then (this, None)
      else
        (let eventsToSend = take (batchSize this) (eventQueue this);
             this' = this\<lparr>eventQueue := drop (batchSize this) (eventQueue this)\<rparr>
         in (this', Some (isSync,
               \<lparr>events = eventsToSend, batch = (1 < length eventsToSend)\<rparr>))))"

text \<open>
  The \<^verbatim>\<open>catch\<close> block of \<^verbatim>\<open>flushQueue\<close>, run when the send of \<open>eventsToSend\<close> has
  failed: \<^verbatim>\<open>if (!event._retryCount) event._retryCount = 0\<close>, then an event below the
  ceiling gets its count incremented and is put back at the front of the queue. Nothing
  is done with an event at the ceiling.
\<close>

definition retriesOf :: "event \<Rightarrow> nat" where
  "retriesOf e = (case ev_retryCount e of None \<Rightarrow> 0 | Some n \<Rightarrow> n)"

definition requeueOne :: "serverTracker \<Rightarrow> event \<Rightarrow> serverTracker" where
  "requeueOne this e =
     (if retriesOf e < maxRetries this
      then this\<lparr>eventQueue := e\<lparr>ev_retryCount := Some (retriesOf e + 1)\<rparr> # eventQueue this\<rparr>
      else this)"

definition requeueFailed :: "serverTracker \<Rightarrow> event list \<Rightarrow> serverTracker" where
  "requeueFailed this eventsToSend = foldl requeueOne this eventsToSend"

text \<open>\<^verbatim>\<open>addToQueue\<close>: push, then flush when the queue has reached the batch size.\<close>

definition addToQueue :: "serverTracker \<Rightarrow> event \<Rightarrow>
    serverTracker \<times> (bool \<times> trackPayload) option" where
  "addToQueue this e =
     (let this' = this\<lparr>eventQueue := eventQueue this @ [e]\<rparr>
      in if batchSize this' \<le> length (eventQueue this') then flushQueue this' False
         else (this', None))"

definition track :: "serverTracker \<Rightarrow> string \<Rightarrow> (string \<times> string) list \<Rightarrow>
    serverTracker \<times> (bool \<times> trackPayload) option" where
  "track this eventName eventData =
     addToQueue this \<lparr>ev_name = eventName, ev_data = eventData, ev_retryCount = None\<rparr>"

text \<open>
  \<^verbatim>\<open>sendAsync\<close>: \<open>attemptOk k\<close> tells whether the request made with \<open>retryCount = k\<close>
  succeeds (the fetch resolves with an ok status and a JSON body). A failed attempt below
  the ceiling waits \<^verbatim>\<open>retryDelay * 2 ^ retryCount\<close> and tries again. The result tells
  whether the payload was delivered, with the delays waited; \<open>False\<close> is the error thrown
  to \<^verbatim>\<open>flushQueue\<close>.
\<close>

function sendAsync :: "serverTracker \<Rightarrow> (nat \<Rightarrow> bool) \<Rightarrow> nat \<Rightarrow> bool \<times> nat list" where
  "sendAsync this attemptOk retryCount =
     (if attemptOk retryCount then (True, [])
      else if retryCount < maxRetries this
      then (case sendAsync this attemptOk (retryCount + 1) of
              (delivered, delays) \<Rightarrow> (delivered, retryDelay this * 2 ^ retryCount # delays))
      else (False, []))"
  by pat_completeness auto
termination
  by (relation "measure (\<lambda>(this, attemptOk, retryCount). maxRetries this - retryCount)") auto

declare sendAsync.simps [simp del]

subsection \<open>The tracker in the event loop\<close>

text \<open>
  Everything that makes the tracker run: a call of \<^verbatim>\<open>track\<close>, the interval timer, the
  listeners installed by \<^verbatim>\<open>init\<close> (online, offline, visibilitychange to hidden,
  beforeunload), the methods \<^verbatim>\<open>clearQueue\<close>, \<^verbatim>\<open>stop\<close> and \<^verbatim>\<open>start\<close>, and the
  settling of a send started earlier: \<open>SendFailed i\<close> is the failure of the \<open>i\<close>-th
  send still in flight (its \<^verbatim>\<open>catch\<close> block runs), \<open>SendSucceeded i\<close> its success.
  Each occurrence runs to completion before the next, as the event loop has it.
\<close>

datatype occurrence =
    Track string "(string \<times> string) list"
  | TimerFires
  | Online
  | Offline
  | Hidden
  | BeforeUnload
  | SendFailed nat
  | SendSucceeded nat
  | ClearQueue
  | Stop
  | Start

record run =
  tracker :: serverTracker
  inFlight :: "event list list"
  sent :: "(bool \<times> trackPayload) list"

definition dispatched :: "run \<Rightarrow> serverTracker \<times> (bool \<times> trackPayload) option \<Rightarrow> run" where
  "dispatched r res =
     (case res of
        (this, None) \<Rightarrow> r\<lparr>tracker := this\<rparr>
      | (this, Some p) \<Rightarrow>
          r\<lparr>tracker := this, inFlight := inFlight r @ [events (snd p)],
            sent := sent r @ [p]\<rparr>)"

definition settle :: "nat \<Rightarrow> event list list \<Rightarrow> event list list" where
  "settle i bs = take i bs @ drop (Suc i) bs"

fun occur :: "run \<Rightarrow> occurrence \<Rightarrow> run" where
  "occur r (Track eventName eventData) = dispatched r (track (tracker r) eventName eventData)"
| "occur r TimerFires =
     (if flushTimer (tracker r) \<and> eventQueue (tracker r) \<noteq> []
      then dispatched r (flushQueue (tracker r) False) else r)"
| "occur r Online = dispatched r (flushQueue ((tracker r)\<lparr>isOnline := True\<rparr>) False)"
| "occur r Offline = r\<lparr>tracker := (tracker r)\<lparr>isOnline := False\<rparr>\<rparr>"
| "occur r Hidden = dispatched r (flushQueue (tracker r) False)"
| "occur r BeforeUnload = dispatched r (flushQueue (tracker r) True)"
| "occur r (SendFailed i) =
     (if i < length (inFlight r)
      then r\<lparr>tracker := requeueFailed (tracker r) (inFlight r ! i),
             inFlight := settle i (inFlight r)\<rparr>
      else r)"
| "occur r (SendSucceeded i) =
     (if i < length (inFlight r) then r\<lparr>inFlight := settle i (inFlight r)\<rparr> else r)"
| "occur r ClearQueue = r\<lparr>tracker := (tracker r)\<lparr>eventQueue := []\<rparr>\<rparr>"
| "occur r Stop = r\<lparr>tracker := (tracker r)\<lparr>flushTimer := False\<rparr>\<rparr>"
| "occur r Start = r\<lparr>tracker := (tracker r)\<lparr>flushTimer := True\<rparr>\<rparr>"

definition startRun :: "bool \<Rightarrow> run" where
  "startRun onLine = \<lparr>tracker = newServerTracker onLine, inFlight = [], sent = []\<rparr>"

definition runs :: "run \<Rightarrow> occurrence list \<Rightarrow> run" where
  "runs r os = foldl occur r os"

text \<open>How often the event \<open>(eventName, eventData)\<close> occurs in the payloads sent so far,
  and how often it was tracked.\<close>

definition sameEvent :: "string \<Rightarrow> (string \<times> string) list \<Rightarrow> event \<Rightarrow> bool" where
  "sameEvent eventName eventData e = (ev_name e = eventName \<and> ev_data e = eventData)"

definition timesSent :: "string \<Rightarrow> (string \<times> string) list \<Rightarrow> run \<Rightarrow> nat" where
  "timesSent eventName eventData r =
     length (filter (sameEvent eventName eventData) (concat (map (\<lambda>p. events (snd p)) (sent r))))"

definition timesTracked :: "string \<Rightarrow> (string \<times> string) list \<Rightarrow> occurrence list \<Rightarrow> nat" where
  "timesTracked eventName eventData os = length (filter (\<lambda>oc. oc = Track eventName eventData) os)"

subsection \<open>Send budgets\<close>

text \<open>
  Bookkeeping for the bound on resends. An event in the queue with \<open>c\<close> retries may
  still be sent \<open>maxRetries + 1 - c\<close> times, an event of a send in flight may be sent
  \<open>maxRetries - c\<close> more times. \<open>sendBudget\<close> adds the sends already made.
\<close>

definition budgetQueued :: "nat \<Rightarrow> (event \<Rightarrow> bool) \<Rightarrow> event list \<Rightarrow> nat" where
  "budgetQueued M P q = sum_list (map (\<lambda>e. M + 1 - retriesOf e) (filter P q))"

definition budgetInFlight :: "nat \<Rightarrow> (event \<Rightarrow> bool) \<Rightarrow> event list \<Rightarrow> nat" where
  "budgetInFlight M P b = sum_list (map (\<lambda>e. M - retriesOf e) (filter P b))"

definition sendBudget :: "string \<Rightarrow> (string \<times> string) list \<Rightarrow> run \<Rightarrow> nat" where
  "sendBudget eventName eventData r =
     timesSent eventName eventData r
     + budgetQueued (maxRetries (tracker r)) (sameEvent eventName eventData)
         (eventQueue (tracker r))
     + budgetInFlight (maxRetries (tracker r)) (sameEvent eventName eventData)
         (concat (inFlight r))"

definition boundedRetries :: "run \<Rightarrow> bool" where
  "boundedRetries r =
     ((\<forall>e \<in> set (eventQueue (tracker r)). retriesOf e \<le> maxRetries (tracker r)) \<and>
      (\<forall>e \<in> set (concat (inFlight r)). retriesOf e \<le> maxRetries (tracker r)))"

section \<open>JavaScript values and strings of the serverless functions\<close>

text \<open>
  Values parsed from JSON (request bodies, replies of the GitHub API), together with
  \<^verbatim>\<open>undefined\<close>. A string is the list of its code units, here restricted to the
  range 0 to 255. A number is carried by the text that \<^verbatim>\<open>String\<close> prints for it
  (\<^verbatim>\<open>1\<close>, \<^verbatim>\<open>-2.5\<close>, \<^verbatim>\<open>1e+21\<close>; zero of either sign prints as \<^verbatim>\<open>0\<close>): the
  content-write functions never compute with a number of a body, they test its
  truthiness, compare it with 1 and convert it to a string. An object is the list of its
  own properties, each key once; a value parsed from JSON is never a function.
\<close>

datatype jsval =
    JUndefined
  | JNull
  | JBool bool
  | JNum string
  | JStr string
  | JArr "jsval list"
  | JObj "(string \<times> jsval) list"

text \<open>Truthiness, as \<^verbatim>\<open>!v\<close> and \<^verbatim>\<open>v || w\<close> test it.\<close>

fun truthy :: "jsval \<Rightarrow> bool" where
  "truthy JUndefined = False"
| "truthy JNull = False"
| "truthy (JBool b) = b"
| "truthy (JNum n) = (n \<noteq> ''0'' \<and> n \<noteq> ''NaN'')"
| "truthy (JStr s) = (s \<noteq> [])"
| "truthy (JArr xs) = True"
| "truthy (JObj kvs) = True"

text \<open>
  Property access \<^verbatim>\<open>v.k\<close> for the keys read by the handlers (none of them is a
  built-in property of a string, number, boolean or array): \<^verbatim>\<open>undefined\<close> unless
  \<open>v\<close> is an object with that key. On \<^verbatim>\<open>null\<close> and \<^verbatim>\<open>undefined\<close> this is the
  value of \<^verbatim>\<open>v?.k\<close>; a plain \<^verbatim>\<open>v.k\<close> throws there, which the callers check
  first with \<open>nullish\<close>.
\<close>

fun getProp :: "jsval \<Rightarrow> string \<Rightarrow> jsval" where
  "getProp (JObj kvs) k = (case map_of kvs k of None \<Rightarrow> JUndefined | Some v \<Rightarrow> v)"
| "getProp v k = JUndefined"

fun nullish :: "jsval \<Rightarrow> bool" where
  "nullish JUndefined = True"
| "nullish JNull = True"
| "nullish v = False"

text \<open>Decimal notation of a natural number, as \<^verbatim>\<open>toString\<close> prints a clock reading.\<close>

definition digitChar :: "nat \<Rightarrow> char" where
  "digitChar d = ''0123456789'' ! d"

fun showNat :: "nat \<Rightarrow> string" where
  "showNat n = (if n < 10 then [digitChar n]
                else showNat (n div 10) @ [digitChar (n mod 10)])"

declare showNat.simps [simp del]

definition join :: "string \<Rightarrow> string list \<Rightarrow> string" where
  "join sep xs = (case xs of [] \<Rightarrow> [] | x # rest \<Rightarrow> x @ concat (map (\<lambda>y. sep @ y) rest))"

text \<open>
  \<^verbatim>\<open>String(v)\<close> and the conversion of \<^verbatim>\<open>${v}\<close> in a template literal. The
  conversion of an object calls its \<^verbatim>\<open>toString\<close>, then its \<^verbatim>\<open>valueOf\<close>. An
  object parsed from JSON inherits both; the inherited \<^verbatim>\<open>toString\<close> gives
  \<^verbatim>\<open>[object Object]\<close>. An own property \<^verbatim>\<open>toString\<close> hides the inherited one and
  is not callable, and \<^verbatim>\<open>valueOf\<close> (inherited, or an own one that is not callable)
  yields no primitive value: the conversion throws a TypeError. An array is converted by
  joining the conversions of its elements with commas, \<^verbatim>\<open>null\<close> and
  \<^verbatim>\<open>undefined\<close> elements giving the empty string; \<open>js_Strings\<close> converts the
  elements in order, and throws what the first failing element throws.
\<close>

fun js_String :: "jsval \<Rightarrow> js_error + string"
  and js_Strings :: "jsval list \<Rightarrow> js_error + string list" where
  "js_String JUndefined = Inr ''undefined''"
| "js_String JNull = Inr ''null''"
| "js_String (JBool b) = Inr (if b then ''true'' else ''false'')"
| "js_String (JNum n) = Inr n"
| "js_String (JStr s) = Inr s"
| "js_String (JArr xs) =
     (case js_Strings xs of Inl err \<Rightarrow> Inl err | Inr ss \<Rightarrow> Inr (join '','' ss))"
| "js_String (JObj kvs) =
     (if map_of kvs ''toString'' \<noteq> None then Inl TypeError else Inr ''[object Object]'')"
| "js_Strings [] = Inr []"
| "js_Strings (x # xs) =
     (case (if nullish x then Inr [] else js_String x) of
        Inl err \<Rightarrow> Inl err
      | Inr s \<Rightarrow> (case js_Strings xs of Inl err \<Rightarrow> Inl err | Inr ss \<Rightarrow> Inr (s # ss)))"

text \<open>White space and line terminators among the code units up to 255, as
  \<^verbatim>\<open>trim\<close> and the white-space class of regular expressions have them.\<close>

definition isSpace :: "char \<Rightarrow> bool" where
  "isSpace c = (of_char c \<in> {9, 10, 11, 12, 13, 32, 160 :: nat})"

definition trim :: "string \<Rightarrow> string" where
  "trim s = rev (dropWhile isSpace (rev (dropWhile isSpace s)))"

text \<open>
  \<^verbatim>\<open>toLowerCase\<close> on code units up to 255: the letters A to Z, and the capital
  letters of the range 192 to 222 (215, the multiplication sign, is not one), each moved
  up by 32.
\<close>

definition upperCaseUnits :: string where
  "upperCaseUnits = ''ABCDEFGHIJKLMNOPQRSTUVWXYZ'' @
       [CHR 0xC0, CHR 0xC1, CHR 0xC2, CHR 0xC3, CHR 0xC4, CHR 0xC5, CHR 0xC6, CHR 0xC7,
        CHR 0xC8, CHR 0xC9, CHR 0xCA, CHR 0xCB, CHR 0xCC, CHR 0xCD, CHR 0xCE, CHR 0xCF,
        CHR 0xD0, CHR 0xD1, CHR 0xD2, CHR 0xD3, CHR 0xD4, CHR 0xD5, CHR 0xD6, CHR 0xD8,
        CHR 0xD9, CHR 0xDA, CHR 0xDB, CHR 0xDC, CHR 0xDD, CHR 0xDE]"

definition lowerCaseUnits :: string where
  "lowerCaseUnits = ''abcdefghijklmnopqrstuvwxyz'' @
       [CHR 0xE0, CHR 0xE1, CHR 0xE2, CHR 0xE3, CHR 0xE4, CHR 0xE5, CHR 0xE6, CHR 0xE7,
        CHR 0xE8, CHR 0xE9, CHR 0xEA, CHR 0xEB, CHR 0xEC, CHR 0xED, CHR 0xEE, CHR 0xEF,
        CHR 0xF0, CHR 0xF1, CHR 0xF2, CHR 0xF3, CHR 0xF4, CHR 0xF5, CHR 0xF6, CHR 0xF8,
        CHR 0xF9, CHR 0xFA, CHR 0xFB, CHR 0xFC, CHR 0xFD, CHR 0xFE]"

definition toLowerCase :: "string \<Rightarrow> string" where
  "toLowerCase s =
     map (\<lambda>c. case map_of (zip upperCaseUnits lowerCaseUnits) c of
                 None \<Rightarrow> c | Some l \<Rightarrow> l) s"

fun startsWith :: "string \<Rightarrow> string \<Rightarrow> bool" where
  "startsWith s [] = True"
| "startsWith [] (p # ps) = False"
| "startsWith (c # cs) (p # ps) = (c = p \<and> startsWith cs ps)"

definition endsWith :: "string \<Rightarrow> string \<Rightarrow> bool" where
  "endsWith s p = startsWith (rev s) (rev p)"

fun includes_str :: "string \<Rightarrow> string \<Rightarrow> bool" where
  "includes_str [] p = (p = [])"
| "includes_str (c # cs) p = (startsWith (c # cs) p \<or> includes_str cs p)"

text \<open>\<^verbatim>\<open>s.split('/').pop()\<close>: what follows the last slash.\<close>

definition lastSegment :: "string \<Rightarrow> string" where
  "lastSegment s = rev (takeWhile (\<lambda>c. c \<noteq> CHR ''/'') (rev s))"

text \<open>\<^verbatim>\<open>Date.now().toString().slice(-6)\<close> for the clock reading \<open>t\<close>.\<close>

definition timestamp6 :: "nat \<Rightarrow> string" where
  "timestamp6 t = (let s = showNat t in drop (length s - 6) s)"

section \<open>Requests, responses and the environment of the serverless functions\<close>

text \<open>
  What the handlers read of a request: the method, the header \<^verbatim>\<open>x-access-key\<close>
  (absent, or its value), the parsed body (\<^verbatim>\<open>undefined\<close> when there is none) and the
  query parameter \<^verbatim>\<open>id\<close>.
\<close>

record request =
  req_method :: string
  req_xAccessKey :: "string option"
  req_body :: jsval
  req_queryId :: "string option"

text \<open>The environment variables read through \<^verbatim>\<open>process.env\<close>.\<close>

record env =
  GITHUB_TOKEN :: "string option"
  GITHUB_REPO :: "string option"
  WRITE_ACCESS_KEY :: "string option"
  NODE_ENV :: "string option"
  SUPABASE_URL :: "string option"
  SUPABASE_ANON_KEY :: "string option"

text \<open>\<^verbatim>\<open>!v\<close> for a variable or header: absent or empty.\<close>

definition unset :: "string option \<Rightarrow> bool" where
  "unset v = (v = None \<or> v = Some [])"

text \<open>A variable as a template literal renders it.\<close>

definition interpolated :: "string option \<Rightarrow> string" where
  "interpolated v = (case v of None \<Rightarrow> ''undefined'' | Some s \<Rightarrow> s)"

text \<open>
  The fixed texts of the \<^verbatim>\<open>error\<close> field of a response. Those of the content-write
  functions are Chinese string literals in the source; each is named here after its
  meaning.
\<close>

datatype errmsg =
    OnlyPostSupported
  | ServerMisconfigured
  | InvalidAccessKey
  | TitleEmpty
  | BodyEmpty
  | NoteContentEmpty
  | NoTagSelected
  | NoValidTag
  | FileExistsOrPathInvalid
  | GithubPermissionDenied
  | ServerErrorRetryLater
  | SupabaseConfigurationMissing
  | MissingIdParameter
  | MethodNotAllowed
  | InternalServerError

text \<open>
  The \<^verbatim>\<open>message\<close> of an error caught by a handler: the message of a GitHub error
  reply, the default text used when the reply has none, the engine's text for a
  TypeError or SyntaxError, or the message of a rejected \<^verbatim>\<open>fetch\<close>.
\<close>

datatype errtext =
    GithubMessage string
  | GithubRequestFailed
  | NativeMessage js_error
  | FetchRejected

record exn =
  exn_status :: "nat option"
  exn_message :: errtext

datatype resp_body =
    NoBody
  | ErrorBody errmsg
  | ErrorDetails errmsg "errtext option"
  | PostCreated string string jsval
  | NoteCreated string string jsval
  | LikeAdded string rat
  | LikeCount string rat

record response =
  status :: nat
  body :: resp_body

section \<open>Calls of the GitHub contents API\<close>

record commitPayload =
  message :: string
  content :: string
  branch :: string
  author :: "string \<times> string"
  committer :: "string \<times> string"
  sha :: jsval

text \<open>
  A call of \<^verbatim>\<open>fetch\<close>: method, URL, the token of the Authorization header, the user
  agent, and the JSON body of a PUT. In the payload, \<open>sha = JUndefined\<close> stands for a
  payload without the key \<^verbatim>\<open>sha\<close> (\<^verbatim>\<open>JSON.stringify\<close> leaves out a key whose value
  is undefined).
\<close>

record http_request =
  rq_method :: string
  rq_url :: string
  rq_token :: string
  rq_userAgent :: string
  rq_body :: "commitPayload option"

text \<open>
  What a call of \<^verbatim>\<open>fetch\<close> comes to: the promise is rejected, or a reply arrives with
  a status and a body; the body is \<open>None\<close> when \<^verbatim>\<open>response.json()\<close> fails on it.
\<close>

datatype fetch_result = Rejected | Reply nat "jsval option"

text \<open>A call of \<^verbatim>\<open>fetch\<close> together with what it came to.\<close>

type_synonym exchange = "http_request \<times> fetch_result"

definition isOk :: "nat \<Rightarrow> bool" where
  "isOk st = (200 \<le> st \<and> st \<le> 299)"

text \<open>
  The date strings that \<^verbatim>\<open>buildPublishInfo\<close> (post creation) and the first lines of
  the \<^verbatim>\<open>try\<close> block of note creation compute from the clock and the time zone.
\<close>

record publishInfo =
  frontMatter :: string
  filenameBase :: string
  iso :: string

record noteTime =
  dateStr :: string
  timeStr :: string
  hours :: string
  minutes :: string
  urlDate :: string

text \<open>
  The world outside a handler, of any type \<open>'w\<close>: the service behind \<^verbatim>\<open>fetch\<close> and
  the clock. A handler takes the world and returns it as its calls have left it.
  \<open>buildPublishInfo\<close> and \<open>noteTimes\<close> stand for the calendar arithmetic of the
  \<^verbatim>\<open>Date\<close> object, and \<open>base64\<close> for \<^verbatim>\<open>Buffer.from(s, 'utf8').toString('base64')\<close>;
  they are not interpreted.
\<close>

record 'w platform =
  fetch :: "'w \<Rightarrow> http_request \<Rightarrow> fetch_result \<times> 'w"
  dateNow :: "'w \<Rightarrow> nat \<times> 'w"
  buildPublishInfo :: "'w \<Rightarrow> jsval \<Rightarrow> publishInfo \<times> 'w"
  noteTimes :: "'w \<Rightarrow> noteTime \<times> 'w"
  base64 :: "string \<Rightarrow> string"

definition contentsUrl :: "string \<Rightarrow> string \<Rightarrow> string" where
  "contentsUrl repo path = ''https://api.github.com/repos/'' @ repo @ ''/contents/'' @ path"

definition bazinga :: "string \<times> string" where
  "bazinga = (''Bazinga'', ''zjb15239430906@gmail.com'')"

text \<open>
  The end of both \<^verbatim>\<open>commitToGitHub\<close> functions: the reply to the PUT is turned into
  the value returned or the error thrown. A reply that is not ok throws an error with the
  reply's status; its message is read from the reply's body, which is \<^verbatim>\<open>{}\<close> when the
  body is not JSON, and reading it throws a TypeError when the body is \<^verbatim>\<open>null\<close>.
  \<^verbatim>\<open>new Error(m)\<close> converts a message \<open>m\<close> to a string, which throws a TypeError
  for a message that \<open>js_String\<close> cannot convert.
\<close>

definition putOutcome :: "fetch_result \<Rightarrow> exn + jsval" where
  "putOutcome r =
     (case r of
        Rejected \<Rightarrow> Inl \<lparr>exn_status = None, exn_message = FetchRejected\<rparr>
      | Reply st b \<Rightarrow>
          if \<not> isOk st then
            (let errorBody = (case b of None \<Rightarrow> JObj [] | Some v \<Rightarrow> v) in
             if nullish errorBody
             then Inl \<lparr>exn_status = None, exn_message = NativeMessage TypeError\<rparr>
             else if truthy (getProp errorBody ''message'')
             then (case js_String (getProp errorBody ''message'') of
                     Inl err \<Rightarrow> Inl \<lparr>exn_status = None, exn_message = NativeMessage err\<rparr>
                   | Inr text \<Rightarrow>
                       Inl \<lparr>exn_status = Some st, exn_message = GithubMessage text\<rparr>)
             else Inl \<lparr>exn_status = Some st, exn_message = GithubRequestFailed\<rparr>)
          else
            (case b of
               None \<Rightarrow> Inl \<lparr>exn_status = None, exn_message = NativeMessage SyntaxError\<rparr>
             | Some v \<Rightarrow> Inr v))"

text \<open>
  The \<^verbatim>\<open>catch\<close> block, the same in both handlers: status 422 becomes a 400, status 403
  a 403, anything else a 500 whose \<^verbatim>\<open>details\<close> are the error's message in development
  and undefined (left out of the JSON) otherwise.
\<close>

definition respondToError :: "env \<Rightarrow> exn \<Rightarrow> response" where
  "respondToError e error =
     (if exn_status error = Some 422
      then \<lparr>status = 400, body = ErrorBody FileExistsOrPathInvalid\<rparr>
      else if exn_status error = Some 403
      then \<lparr>status = 403, body = ErrorBody GithubPermissionDenied\<rparr>
      else \<lparr>status = 500,
             body = ErrorDetails ServerErrorRetryLater
               (if NODE_ENV e = Some ''development'' then Some (exn_message error) else None)\<rparr>)"

section \<open>Post creation (the handler with \<^verbatim>\<open>_posts/\<close> paths)\<close>

text \<open>
  \<^verbatim>\<open>generateSlug\<close>: trim, lower case, drop every code unit that is not a lower-case
  letter, a digit, white space or a hyphen (the CJK range kept by the source has no code
  unit below 256), turn each run of white space into one hyphen, each run of hyphens into
  one hyphen, and strip a hyphen at the start and at the end. An empty result is
  replaced by \<^verbatim>\<open>post-\<close> and the last six digits of the clock. The result is the
  slug, or the TypeError that \<^verbatim>\<open>String(source)\<close> throws.
\<close>

definition keepSlugUnit :: "char \<Rightarrow> bool" where
  "keepSlugUnit c =
     (let n = (of_char c :: nat) in
      (97 \<le> n \<and> n \<le> 122) \<or> (48 \<le> n \<and> n \<le> 57) \<or> isSpace c \<or> c = CHR ''-'')"

fun squeeze :: "(char \<Rightarrow> bool) \<Rightarrow> bool \<Rightarrow> string \<Rightarrow> string" where
  "squeeze P inRun [] = []"
| "squeeze P inRun (c # cs) =
     (if P c then (if inRun then squeeze P True cs else CHR ''-'' # squeeze P True cs)
      else c # squeeze P False cs)"

definition stripHyphens :: "string \<Rightarrow> string" where
  "stripHyphens s =
     (let s1 = (case s of [] \<Rightarrow> [] | c # cs \<Rightarrow> if c = CHR ''-'' then cs else s)
      in if s1 \<noteq> [] \<and> last s1 = CHR ''-'' then butlast s1 else s1)"

definition cleanSlug :: "string \<Rightarrow> string" where
  "cleanSlug s =
     stripHyphens (squeeze (\<lambda>c. c = CHR ''-'') False (squeeze isSpace False
       (filter keepSlugUnit (toLowerCase (trim s)))))"

definition generateSlug :: "'w platform \<Rightarrow> 'w \<Rightarrow> jsval \<Rightarrow> (js_error + string) \<times> 'w" where
  "generateSlug P w source =
     (if \<not> truthy source
      then (case dateNow P w of (t, w') \<Rightarrow> (Inr (''post-'' @ timestamp6 t), w'))
      else
        (case js_String source of
           Inl err \<Rightarrow> (Inl err, w)
         | Inr text \<Rightarrow>
             (let clean = cleanSlug text in
              if clean \<noteq> [] then (Inr clean, w)
              else (case dateNow P w of (t, w') \<Rightarrow> (Inr (''post-'' @ timestamp6 t), w')))))"

definition escapeYAML :: "string \<Rightarrow> string" where
  "escapeYAML v = concat (map (\<lambda>c. if c = CHR 0x22 then [CHR 0x5C, CHR 0x22] else [c]) v)"

definition isValidFilename :: "jsval \<Rightarrow> bool" where
  "isValidFilename v =
     (case v of
        JStr s \<Rightarrow> endsWith s ''.md'' \<and> \<not> includes_str s ''/'' \<and> \<not> includes_str s ''..''
                 \<and> includes_str s ''-post-''
      | _ \<Rightarrow> False)"

text \<open>
  \<^verbatim>\<open>createMarkdown\<close>; the title and the body arrive trimmed, as strings, the
  image and its text as the body of the request has them. The result is the text of the
  file, or the TypeError thrown by \<^verbatim>\<open>String(image)\<close> or \<^verbatim>\<open>String(imageText)\<close>.
\<close>

definition createMarkdown :: "'w platform \<Rightarrow> 'w \<Rightarrow> string \<Rightarrow> string \<Rightarrow> string \<Rightarrow> string \<Rightarrow>
    bool \<Rightarrow> jsval \<Rightarrow> jsval \<Rightarrow> string \<Rightarrow> (js_error + string) \<times> 'w" where
  "createMarkdown P w title body' slug lang feature image' imageText date =
     (let lines1 =
            [''---'', ''title: '' @ [CHR 0x22] @ escapeYAML title @ [CHR 0x22],
             ''layout: default'', ''open_heart: true'', ''date: '' @ date]
            @ (if feature then [''feature: 1''] else [])
            @ (if lang \<noteq> [] \<and> lang \<noteq> ''zh-CN'' then [''lang: '' @ lang] else [])
      in case (if truthy image' then js_String image' else Inr []) of
           Inl err \<Rightarrow> (Inl err, w)
         | Inr imageStr \<Rightarrow>
        (let lines2 = lines1
               @ (if trim imageStr \<noteq> [] then [''image: '' @ trim imageStr] else [])
         in case (if truthy imageText then js_String imageText else Inr []) of
              Inl err \<Rightarrow> (Inl err, w)
            | Inr imageTextStr \<Rightarrow>
           (let lines3 = lines2
                  @ (if trim imageTextStr \<noteq> []
                     then [''image_text: '' @ [CHR 0x22] @ escapeYAML (trim imageTextStr)
                           @ [CHR 0x22]]
                     else [])
            in if slug \<noteq> []
               then (case generateSlug P w (JStr title) of
                       (Inl err, w1) \<Rightarrow> (Inl err, w1)
                     | (Inr titleSlug, w1) \<Rightarrow>
                         (Inr (join [CHR 0x0A]
                            (lines3
                             @ (if slug \<noteq> titleSlug
                                then [''slug: '' @ [CHR 0x22] @ escapeYAML slug @ [CHR 0x22]]
                                else [])
                             @ [''---'', [], trim body', []])), w1))
               else (Inr (join [CHR 0x0A] (lines3 @ [''---'', [], trim body', []])), w))))"

text \<open>
  The new path when the target exists: \<^verbatim>\<open>-\<close> and the time stamp go before the last
  dot, or at the end of a path without a dot.
\<close>

definition suffixedBeforeLastDot :: "string \<Rightarrow> string \<Rightarrow> string" where
  "suffixedBeforeLastDot targetPath timestamp =
     (if CHR ''.'' \<in> set targetPath
      then (let ext = rev (takeWhile (\<lambda>c. c \<noteq> CHR ''.'') (rev targetPath));
                stem = take (length targetPath - length ext - 1) targetPath
            in stem @ ''-'' @ timestamp @ ''.'' @ ext)
      else targetPath @ ''-'' @ timestamp)"

text \<open>
  \<^verbatim>\<open>commitToGitHub\<close> of post creation. The result is the value returned or the error
  thrown, the world, and the calls of \<^verbatim>\<open>fetch\<close> made with their outcomes, in order. A rejected existence
  check is ignored, as the empty \<^verbatim>\<open>catch\<close> does.
\<close>

definition commitToGitHub_post :: "'w platform \<Rightarrow> 'w \<Rightarrow> string \<Rightarrow> string \<Rightarrow> string \<Rightarrow> string \<Rightarrow>
    string \<Rightarrow> (exn + jsval) \<times> 'w \<times> exchange list" where
  "commitToGitHub_post P w token repo filepath content' message' =
     (let checkRequest = \<lparr>rq_method = ''GET'', rq_url = contentsUrl repo filepath,
            rq_token = token, rq_userAgent = ''site-post-writer'', rq_body = None\<rparr>;
          (checkResponse, w1) = fetch P w checkRequest;
          (targetPath, w2) =
            (case checkResponse of
               Rejected \<Rightarrow> (filepath, w1)
             | Reply st b \<Rightarrow>
                 if isOk st
                 then (case dateNow P w1 of
                         (t, w') \<Rightarrow> (suffixedBeforeLastDot filepath (timestamp6 t), w'))
                 else (filepath, w1));
          payload = \<lparr>message = message', content = base64 P content', branch = ''main'',
            author = bazinga, committer = bazinga, sha = JUndefined\<rparr>;
          putRequest = \<lparr>rq_method = ''PUT'', rq_url = contentsUrl repo targetPath,
            rq_token = token, rq_userAgent = ''site-post-writer'', rq_body = Some payload\<rparr>;
          (response, w3) = fetch P w2 putRequest
      in (putOutcome response, w3,
          [(checkRequest, checkResponse), (putRequest, response)]))"

text \<open>
  The statements of the \<^verbatim>\<open>try\<close> block after the commit: the file name of the
  response is read from \<^verbatim>\<open>commitResult.content.path\<close> when that is truthy (calling
  \<^verbatim>\<open>split\<close> on anything but a string throws a TypeError).
\<close>

definition postCreatedResponse :: "jsval \<Rightarrow> string \<Rightarrow> string \<Rightarrow> exn + response" where
  "postCreatedResponse commitResult filename cleanedSlug =
     (let path = getProp (getProp commitResult ''content'') ''path'';
          commitSha = (if truthy (getProp (getProp commitResult ''commit'') ''sha'')
                       then getProp (getProp commitResult ''commit'') ''sha''
                       else getProp commitResult ''sha'')
      in if truthy path
         then (case path of
                 JStr p \<Rightarrow> Inr \<lparr>status = 200,
                   body = PostCreated (''/posts/'' @ cleanedSlug @ ''/'') (lastSegment p) commitSha\<rparr>
               | _ \<Rightarrow> Inl \<lparr>exn_status = None, exn_message = NativeMessage TypeError\<rparr>)
         else Inr \<lparr>status = 200,
                body = PostCreated (''/posts/'' @ cleanedSlug @ ''/'') filename commitSha\<rparr>)"

text \<open>The file name: the one of the request when it is valid, or the generated one.\<close>

definition postFilename :: "publishInfo \<Rightarrow> string \<Rightarrow> jsval \<Rightarrow> string" where
  "postFilename publishInfo cleanedSlug providedFilename =
     (let fallbackFilename = filenameBase publishInfo @ ''-'' @ cleanedSlug @ ''.md''
      in case providedFilename of
           JStr given \<Rightarrow> if isValidFilename providedFilename then given else fallbackFilename
         | _ \<Rightarrow> fallbackFilename)"

text \<open>
  The handler from \<^verbatim>\<open>generateSlug\<close> on, for a body \<open>b\<close> whose title and text have
  passed the checks; \<open>titleStr\<close> and \<open>bodyStr\<close> are the values of
  \<^verbatim>\<open>String(title)\<close> and \<^verbatim>\<open>String(body)\<close>. The statements before the \<^verbatim>\<open>try\<close>
  block compose the file: a TypeError thrown there (by the conversion of the slug, the
  image or the image text to a string) is not caught, and the handler ends with it
  (\<open>Inl\<close>) without a response. Inside the \<^verbatim>\<open>try\<close> block the file is committed and
  the outcome answered.
\<close>

definition publishPost :: "'w platform \<Rightarrow> env \<Rightarrow> 'w \<Rightarrow> jsval \<Rightarrow> string \<Rightarrow> string \<Rightarrow>
    (js_error + response) \<times> 'w \<times> exchange list" where
  "publishPost P e w b titleStr bodyStr =
     (let title = getProp b ''title'';
          providedSlug = getProp b ''slug'';
          lang = (if getProp b ''lang'' = JUndefined then JStr ''zh-CN'' else getProp b ''lang'');
          feature = getProp b ''feature''
      in case generateSlug P w (if truthy providedSlug then providedSlug else title) of
           (Inl err, w1) \<Rightarrow> (Inl err, w1, [])
         | (Inr cleanedSlug, w1) \<Rightarrow>
        (let normalizedLang =
               (case lang of
                  JStr l \<Rightarrow> if trim l \<noteq> [] then trim l else ''zh-CN''
                | _ \<Rightarrow> ''zh-CN'');
             shouldFeature =
               (feature = JNum ''1'' \<or> feature = JStr ''1'' \<or> feature = JBool True);
             (publishInfo, w2) = buildPublishInfo P w1 (getProp b ''date'')
         in case createMarkdown P w2 (trim titleStr) (trim bodyStr) cleanedSlug normalizedLang
                   shouldFeature (getProp b ''image'') (getProp b ''image_text'')
                   (frontMatter publishInfo) of
              (Inl err, w3) \<Rightarrow> (Inl err, w3, [])
            | (Inr markdown, w3) \<Rightarrow>
           (let filename = postFilename publishInfo cleanedSlug (getProp b ''filename'');
                filepath = ''_posts/'' @ filename;
                (committed, w4, calls) =
                  commitToGitHub_post P w3 (interpolated (GITHUB_TOKEN e))
                    (interpolated (GITHUB_REPO e)) filepath markdown
                    (''feat: add post: '' @ cleanedSlug)
            in case committed of
                 Inl error \<Rightarrow> (Inr (respondToError e error), w4, calls)
               | Inr commitResult \<Rightarrow>
                   (case postCreatedResponse commitResult filename cleanedSlug of
                      Inl error \<Rightarrow> (Inr (respondToError e error), w4, calls)
                    | Inr res \<Rightarrow> (Inr res, w4, calls)))))"

text \<open>
  The handler. Its result is the response, or the exception it ends with when an error
  is thrown outside the \<^verbatim>\<open>try\<close> block (no response is sent then); the world
  afterwards; and the calls of \<^verbatim>\<open>fetch\<close> made with their outcomes. The body is
  destructured from \<^verbatim>\<open>req.body || {}\<close>. \<^verbatim>\<open>String(title)\<close> and \<^verbatim>\<open>String(body)\<close>
  of the two checks throw a TypeError for a value that \<open>js_String\<close> cannot convert.
\<close>

definition handler_post :: "'w platform \<Rightarrow> env \<Rightarrow> 'w \<Rightarrow> request \<Rightarrow>
    (js_error + response) \<times> 'w \<times> exchange list" where
  "handler_post P e w req =
     (if req_method req = ''OPTIONS'' then (Inr \<lparr>status = 200, body = NoBody\<rparr>, w, [])
      else if req_method req \<noteq> ''POST''
      then (Inr \<lparr>status = 405, body = ErrorBody OnlyPostSupported\<rparr>, w, [])
      else if unset (GITHUB_TOKEN e) \<or> unset (GITHUB_REPO e) \<or> unset (WRITE_ACCESS_KEY e)
      then (Inr \<lparr>status = 500, body = ErrorBody ServerMisconfigured\<rparr>, w, [])
      else if unset (req_xAccessKey req) \<or> req_xAccessKey req \<noteq> WRITE_ACCESS_KEY e
      then (Inr \<lparr>status = 401, body = ErrorBody InvalidAccessKey\<rparr>, w, [])
      else
        (let b = (if truthy (req_body req) then req_body req else JObj []);
             title = getProp b ''title'';
             body' = getProp b ''body''
         in if \<not> truthy title
            then (Inr \<lparr>status = 400, body = ErrorBody TitleEmpty\<rparr>, w, [])
            else case js_String title of
              Inl err \<Rightarrow> (Inl err, w, [])
            | Inr titleStr \<Rightarrow>
                if trim titleStr = []
                then (Inr \<lparr>status = 400, body = ErrorBody TitleEmpty\<rparr>, w, [])
                else if \<not> truthy body'
                then (Inr \<lparr>status = 400, body = ErrorBody BodyEmpty\<rparr>, w, [])
                else case js_String body' of
                  Inl err \<Rightarrow> (Inl err, w, [])
                | Inr bodyStr \<Rightarrow>
                    if trim bodyStr = []
                    then (Inr \<lparr>status = 400, body = ErrorBody BodyEmpty\<rparr>, w, [])
                    else publishPost P e w b titleStr bodyStr))"

section \<open>Note creation (the handler with \<^verbatim>\<open>_notes/\<close> paths)\<close>

text \<open>
  \<^verbatim>\<open>createMarkdownContent\<close>; \<open>lang\<close> is the value of the body, any JSON value. The
  result is the text of the file, or the TypeError thrown by the conversion of
  \<^verbatim>\<open>${lang}\<close> to a string.
\<close>

definition createMarkdownContent :: "string \<Rightarrow> string \<Rightarrow> string list \<Rightarrow> jsval \<Rightarrow> string \<Rightarrow>
    js_error + string" where
  "createMarkdownContent title date tags lang content' =
     (let frontMatter =
            [''---'', ''title: '' @ title, ''layout: default'', ''open_heart: true'',
             ''date: '' @ date,
             ''tags: ['' @ join '', '' (map (\<lambda>tag. [CHR 0x22] @ tag @ [CHR 0x22]) tags) @ '']'']
      in if truthy lang \<and> lang \<noteq> JStr ''zh-CN''
         then (case js_String lang of
                 Inl err \<Rightarrow> Inl err
               | Inr langStr \<Rightarrow>
                   Inr (join [CHR 0x0A]
                          (frontMatter @ [''lang: '' @ langStr] @ [''---'', [], content'])))
         else Inr (join [CHR 0x0A] (frontMatter @ [''---'', [], content'])))"

text \<open>
  The new path when the file exists: \<^verbatim>\<open>filepath.split('.')\<close>, the suffix appended to
  the first part, and the parts joined again, which puts the suffix before the first dot.
\<close>

definition suffixedBeforeFirstDot :: "string \<Rightarrow> string \<Rightarrow> string" where
  "suffixedBeforeFirstDot filepath timestamp =
     takeWhile (\<lambda>c. c \<noteq> CHR ''.'') filepath @ ''-'' @ timestamp
     @ dropWhile (\<lambda>c. c \<noteq> CHR ''.'') filepath"

text \<open>
  \<^verbatim>\<open>commitToGitHub\<close> of note creation. \<open>existingFile\<close> is the parsed body of an ok
  reply to the existence check, and \<^verbatim>\<open>null\<close> when the check is rejected, not ok or
  not JSON. When it is truthy the path gets a suffix and the payload gets
  \<^verbatim>\<open>existingFile.sha\<close>.
\<close>

definition commitToGitHub_note :: "'w platform \<Rightarrow> 'w \<Rightarrow> string \<Rightarrow> string \<Rightarrow> string \<Rightarrow> string \<Rightarrow>
    string \<Rightarrow> (exn + jsval) \<times> 'w \<times> exchange list" where
  "commitToGitHub_note P w token repo filepath content' message' =
     (let checkRequest = \<lparr>rq_method = ''GET'', rq_url = contentsUrl repo filepath,
            rq_token = token, rq_userAgent = ''site-note-writer'', rq_body = None\<rparr>;
          (checkResponse, w1) = fetch P w checkRequest;
          existingFile =
            (case checkResponse of
               Rejected \<Rightarrow> JNull
             | Reply st b \<Rightarrow>
                 if isOk st then (case b of None \<Rightarrow> JNull | Some v \<Rightarrow> v) else JNull);
          (filepath', w2) =
            (if truthy existingFile
             then (case dateNow P w1 of
                     (t, w') \<Rightarrow> (suffixedBeforeFirstDot filepath (timestamp6 t), w'))
             else (filepath, w1));
          payload = \<lparr>message = message', content = base64 P content', branch = ''main'',
            author = bazinga, committer = bazinga,
            sha = (if truthy existingFile then getProp existingFile ''sha'' else JUndefined)\<rparr>;
          putRequest = \<lparr>rq_method = ''PUT'', rq_url = contentsUrl repo filepath',
            rq_token = token, rq_userAgent = ''site-note-writer'', rq_body = Some payload\<rparr>;
          (response, w3) = fetch P w2 putRequest
      in (putOutcome response, w3,
          [(checkRequest, checkResponse), (putRequest, response)]))"

text \<open>
  \<^verbatim>\<open>tags.map(tag => tag.trim())\<close>: calling \<^verbatim>\<open>trim\<close> on an element that is not a
  string throws a TypeError.
\<close>

fun trimTags :: "jsval list \<Rightarrow> js_error + string list" where
  "trimTags [] = Inr []"
| "trimTags (JStr s # rest) =
     (case trimTags rest of Inl err \<Rightarrow> Inl err | Inr ts \<Rightarrow> Inr (trim s # ts))"
| "trimTags (v # rest) = Inl TypeError"

text \<open>
  The \<^verbatim>\<open>try\<close> block of the handler, from the strings of the clock to the response.
  A TypeError thrown by \<^verbatim>\<open>createMarkdownContent\<close> is caught before any call of
  \<^verbatim>\<open>fetch\<close>; reading \<^verbatim>\<open>commitResult.sha\<close> throws a TypeError when the reply was
  \<^verbatim>\<open>null\<close>.
\<close>

definition publishNote :: "'w platform \<Rightarrow> env \<Rightarrow> 'w \<Rightarrow> string list \<Rightarrow> jsval \<Rightarrow> string \<Rightarrow>
    response \<times> 'w \<times> exchange list" where
  "publishNote P e w cleanedTags lang content' =
     (let (nt, w1) = noteTimes P w;
          timeSlug = hours nt @ minutes nt;
          titleSlug = filter (\<lambda>c. c \<noteq> CHR ''-'') (dateStr nt) @ hours nt @ minutes nt;
          filenameBase' = ''note-'' @ dateStr nt @ ''-'' @ timeSlug;
          filename = filenameBase' @ ''.md'';
          filepath = ''_notes/'' @ filename
      in case createMarkdownContent titleSlug (timeStr nt) cleanedTags lang content' of
           Inl err \<Rightarrow>
             (respondToError e \<lparr>exn_status = None, exn_message = NativeMessage err\<rparr>, w1, [])
         | Inr markdownContent \<Rightarrow>
        (let (committed, w2, calls) =
               commitToGitHub_note P w1 (interpolated (GITHUB_TOKEN e))
                 (interpolated (GITHUB_REPO e)) filepath markdownContent
                 (''feat: add note '' @ filenameBase')
         in case committed of
              Inl error \<Rightarrow> (respondToError e error, w2, calls)
            | Inr commitResult \<Rightarrow>
                if nullish commitResult
                then (respondToError e
                        \<lparr>exn_status = None, exn_message = NativeMessage TypeError\<rparr>, w2, calls)
                else (\<lparr>status = 200,
                        body = NoteCreated (''/notes/'' @ urlDate nt @ ''/'' @ timeSlug @ ''/'')
                                 filename (getProp commitResult ''sha'')\<rparr>, w2, calls)))"

text \<open>
  The handler. The body is destructured without a default, which throws a TypeError
  when there is no body (or it is \<^verbatim>\<open>null\<close>); so does \<^verbatim>\<open>trim\<close> called on a
  truthy title or content that is not a string. These errors are thrown outside the
  \<^verbatim>\<open>try\<close> block: the handler ends with the exception (\<open>Inl\<close>) and sends nothing.
\<close>

definition handler_note :: "'w platform \<Rightarrow> env \<Rightarrow> 'w \<Rightarrow> request \<Rightarrow>
    (js_error + response) \<times> 'w \<times> exchange list" where
  "handler_note P e w req =
     (if req_method req = ''OPTIONS'' then (Inr \<lparr>status = 200, body = NoBody\<rparr>, w, [])
      else if req_method req \<noteq> ''POST''
      then (Inr \<lparr>status = 405, body = ErrorBody OnlyPostSupported\<rparr>, w, [])
      else if unset (GITHUB_TOKEN e) \<or> unset (GITHUB_REPO e) \<or> unset (WRITE_ACCESS_KEY e)
      then (Inr \<lparr>status = 500, body = ErrorBody ServerMisconfigured\<rparr>, w, [])
      else if unset (req_xAccessKey req) \<or> req_xAccessKey req \<noteq> WRITE_ACCESS_KEY e
      then (Inr \<lparr>status = 401, body = ErrorBody InvalidAccessKey\<rparr>, w, [])
      else if nullish (req_body req) then (Inl TypeError, w, [])
      else
        (let title = getProp (req_body req) ''title'';
             content' = getProp (req_body req) ''content'';
             tags = getProp (req_body req) ''tags'';
             lang = (if getProp (req_body req) ''lang'' = JUndefined then JStr ''zh-CN''
                     else getProp (req_body req) ''lang'')
         in if \<not> truthy title then (Inr \<lparr>status = 400, body = ErrorBody TitleEmpty\<rparr>, w, [])
            else case title of
              JStr titleStr \<Rightarrow>
                if trim titleStr = []
                then (Inr \<lparr>status = 400, body = ErrorBody TitleEmpty\<rparr>, w, [])
                else if \<not> truthy content'
                then (Inr \<lparr>status = 400, body = ErrorBody NoteContentEmpty\<rparr>, w, [])
                else (case content' of
                  JStr contentStr \<Rightarrow>
                    if trim contentStr = []
                    then (Inr \<lparr>status = 400, body = ErrorBody NoteContentEmpty\<rparr>, w, [])
                    else (case tags of
                      JArr ts \<Rightarrow>
                        if ts = []
                        then (Inr \<lparr>status = 400, body = ErrorBody NoTagSelected\<rparr>, w, [])
                        else (case trimTags ts of
                          Inl err \<Rightarrow> (Inl err, w, [])
                        | Inr trimmed \<Rightarrow>
                            (let cleanedTags = take 10 (filter (\<lambda>tag. tag \<noteq> []) trimmed)
                             in if cleanedTags = []
                                then (Inr \<lparr>status = 400, body = ErrorBody NoValidTag\<rparr>, w, [])
                                else (case publishNote P e w cleanedTags lang (trim contentStr) of
                                        (res, w', calls) \<Rightarrow> (Inr res, w', calls))))
                    | _ \<Rightarrow> (Inr \<lparr>status = 400, body = ErrorBody NoTagSelected\<rparr>, w, []))
                | _ \<Rightarrow> (Inl TypeError, w, []))
            | _ \<Rightarrow> (Inl TypeError, w, [])))"

section \<open>A repository behind the contents API\<close>

text \<open>
  The GitHub repository as the handlers see it through the contents API: a file per
  URL, with its content and the object id (\<^verbatim>\<open>sha\<close>) the API reports for it. A GET
  answers 200 with the file's data, or 404. A PUT to a URL that has no file creates it
  and answers 201; a PUT to a URL that has a file is an update, carried out only on the
  condition that the payload names the file's current \<^verbatim>\<open>sha\<close>, and refused
  otherwise (422 without a \<^verbatim>\<open>sha\<close>, 409 with a stale one) with the file left as it
  is. Object ids are drawn from a counter. The repository also carries the clock that
  \<^verbatim>\<open>Date.now\<close> reads.
\<close>

record gitFile =
  fileContent :: string
  fileSha :: string

record githubRepo =
  files :: "string \<Rightarrow> gitFile option"
  nextId :: nat
  clock :: nat

fun pathOfUrl :: "string \<Rightarrow> string" where
  "pathOfUrl [] = []"
| "pathOfUrl (c # cs) =
     (if startsWith (c # cs) ''/contents/'' then drop 10 (c # cs) else pathOfUrl cs)"

definition fileReply :: "string \<Rightarrow> string \<Rightarrow> jsval" where
  "fileReply url objectId =
     JObj [(''content'', JObj [(''path'', JStr (pathOfUrl url)), (''sha'', JStr objectId)]),
           (''commit'', JObj [(''sha'', JStr (''commit-'' @ objectId))])]"

definition github_fetch :: "githubRepo \<Rightarrow> http_request \<Rightarrow> fetch_result \<times> githubRepo" where
  "github_fetch g rq =
     (if rq_method rq = ''GET'' then
        (case files g (rq_url rq) of
           None \<Rightarrow> (Reply 404 (Some (JObj [(''message'', JStr ''Not Found'')])), g)
         | Some f \<Rightarrow>
             (Reply 200 (Some (JObj [(''path'', JStr (pathOfUrl (rq_url rq))),
                (''sha'', JStr (fileSha f)), (''content'', JStr (fileContent f))])), g))
      else if rq_method rq = ''PUT'' then
        (case rq_body rq of
           None \<Rightarrow> (Reply 422 (Some (JObj [(''message'', JStr ''Invalid request'')])), g)
         | Some p \<Rightarrow>
             (let written = \<lparr>fileContent = content p, fileSha = showNat (nextId g)\<rparr>;
                  g' = g\<lparr>files := (files g)(rq_url rq := Some written),
                         nextId := nextId g + 1\<rparr>
              in case files g (rq_url rq) of
                   None \<Rightarrow>
                     if sha p = JUndefined
                     then (Reply 201 (Some (fileReply (rq_url rq) (showNat (nextId g)))), g')
                     else (Reply 422 (Some (JObj [(''message'', JStr ''Invalid request'')])), g)
                 | Some f \<Rightarrow>
                     if sha p = JStr (fileSha f)
                     then (Reply 200 (Some (fileReply (rq_url rq) (showNat (nextId g)))), g')
                     else if sha p = JUndefined
                     then (Reply 422 (Some (JObj [(''message'', JStr ''sha was not supplied'')])), g)
                     else (Reply 409 (Some (JObj [(''message'', JStr ''sha does not match'')])), g)))
      else (Reply 405 None, g))"

text \<open>A platform whose \<^verbatim>\<open>fetch\<close> reaches such a repository and whose clock and date
  arithmetic leave the repository's files alone.\<close>

definition onGithub :: "githubRepo platform \<Rightarrow> bool" where
  "onGithub P =
     (fetch P = github_fetch \<and>
      (\<forall>g. files (snd (dateNow P g)) = files g) \<and>
      (\<forall>g d. files (snd (buildPublishInfo P g d)) = files g) \<and>
      (\<forall>g. files (snd (noteTimes P g)) = files g))"

text \<open>A platform for running the handlers: the clock advances by one millisecond per
  reading, and the date strings are fixed.\<close>

definition samplePlatform :: "githubRepo platform" where
  "samplePlatform =
     \<lparr>fetch = github_fetch,
      dateNow = (\<lambda>g. (clock g, g\<lparr>clock := clock g + 1\<rparr>)),
      buildPublishInfo = (\<lambda>g d. (\<lparr>frontMatter = ''2026/11/02 09:30'',
          filenameBase = ''2026-11-02-093000-post'', iso = ''2026-11-02T09:30:00+08:00''\<rparr>, g)),
      noteTimes = (\<lambda>g. (\<lparr>dateStr = ''2026-11-02'', timeStr = ''2026/11/02 09:30'',
          hours = ''09'', minutes = ''30'', urlDate = ''2026/11/02''\<rparr>, g)),
      base64 = (\<lambda>s. s)\<rparr>"

definition sampleRepo :: githubRepo where
  "sampleRepo = \<lparr>files = Map.empty, nextId = 1, clock = 1793583000123\<rparr>"

text \<open>The same repository with a post already at the path of the sample date and the
  slug \<^verbatim>\<open>hi\<close>.\<close>

definition repoWithPost :: githubRepo where
  "repoWithPost =
     sampleRepo\<lparr>files :=
       [''https://api.github.com/repos/owner/site/contents/_posts/2026-11-02-093000-post-hi.md''
          \<mapsto> \<lparr>fileContent = ''first'', fileSha = ''0''\<rparr>]\<rparr>"

definition sampleEnv :: env where
  "sampleEnv =
     \<lparr>GITHUB_TOKEN = Some ''ghp_token'', GITHUB_REPO = Some ''owner/site'',
      WRITE_ACCESS_KEY = Some ''s3cret'', NODE_ENV = Some ''production'',
      SUPABASE_URL = Some ''https://db.example'', SUPABASE_ANON_KEY = Some ''anon''\<rparr>"

section \<open>The like counter\<close>

text \<open>
  The table \<^verbatim>\<open>likes\<close> behind the REST interface, as the three requests of the source
  use it: select the rows of a page id, set the count of the rows of a page id (PATCH),
  insert a row (POST). \<open>failing\<close> lists, for the requests to come, whether each fails
  (the fetch is rejected or the reply is not ok), and nothing is written by a request
  that fails; when the list is used up, requests succeed. \<open>repliesWithJson\<close> tells
  whether the reply to a write carries a JSON body: \<^verbatim>\<open>supabaseRequest\<close> ends with
  \<^verbatim>\<open>response.json()\<close>, which throws on a reply without one, after the write is done.
  The count of a row is a JavaScript number, carried by its exact value, and the
  addition of \<^verbatim>\<open>existing[0].count + 1\<close> is the rounded one, \<open>fl (count + 1)\<close>.
\<close>

record likeRow =
  page_id :: string
  count :: rat

record likesStore =
  likes :: "likeRow list"
  failing :: "bool list"
  repliesWithJson :: bool

datatype storeError = RequestFailed | ReplyNotJson

datatype storeRequest =
    SelectLikes string
  | PatchLikes string rat
  | InsertLike string rat

definition supabaseRequest :: "likesStore \<Rightarrow> storeRequest \<Rightarrow> (storeError + likeRow list) \<times> likesStore" where
  "supabaseRequest s rq =
     (case failing s of
        True # rest \<Rightarrow> (Inl RequestFailed, s\<lparr>failing := rest\<rparr>)
      | _ \<Rightarrow>
          (let s' = s\<lparr>failing := tl (failing s)\<rparr> in
           case rq of
             SelectLikes pageId \<Rightarrow> (Inr (filter (\<lambda>r. page_id r = pageId) (likes s)), s')
           | PatchLikes pageId n \<Rightarrow>
               (if repliesWithJson s then Inr [] else Inl ReplyNotJson,
                s'\<lparr>likes := map (\<lambda>r. if page_id r = pageId then r\<lparr>count := n\<rparr> else r)
                                (likes s)\<rparr>)
           | InsertLike pageId n \<Rightarrow>
               (if repliesWithJson s then Inr [] else Inl ReplyNotJson,
                s'\<lparr>likes := likes s @ [\<lparr>page_id = pageId, count = n\<rparr>]\<rparr>)))"

definition getLikeCount :: "likesStore \<Rightarrow> string \<Rightarrow> rat \<times> likesStore" where
  "getLikeCount s pageId =
     (case supabaseRequest s (SelectLikes pageId) of
        (Inl error, s') \<Rightarrow> (0, s')
      | (Inr data, s') \<Rightarrow> (case data of [] \<Rightarrow> (0, s') | r # _ \<Rightarrow> (count r, s')))"

definition incrementLike :: "likesStore \<Rightarrow> string \<Rightarrow> (storeError + rat) \<times> likesStore" where
  "incrementLike s pageId =
     (case supabaseRequest s (SelectLikes pageId) of
        (Inl error, s1) \<Rightarrow> (Inl error, s1)
      | (Inr existing, s1) \<Rightarrow>
          (case existing of
             r # _ \<Rightarrow>
               (let newCount = fl (count r + 1) in
                case supabaseRequest s1 (PatchLikes pageId newCount) of
                  (Inl error, s2) \<Rightarrow> (Inl error, s2)
                | (Inr result, s2) \<Rightarrow> (Inr newCount, s2))
           | [] \<Rightarrow>
               (case supabaseRequest s1 (InsertLike pageId 1) of
                  (Inl error, s2) \<Rightarrow> (Inl error, s2)
                | (Inr result, s2) \<Rightarrow> (Inr 1, s2))))"

text \<open>\<^verbatim>\<open>id.startsWith('/') ? id.substring(1) : id\<close>\<close>

definition cleanId :: "string \<Rightarrow> string" where
  "cleanId id' = (if startsWith id' ''/'' then drop 1 id' else id')"

definition handler_likes :: "env \<Rightarrow> likesStore \<Rightarrow> request \<Rightarrow> response \<times> likesStore" where
  "handler_likes e s req =
     (if req_method req = ''OPTIONS'' then (\<lparr>status = 200, body = NoBody\<rparr>, s)
      else if unset (SUPABASE_URL e) \<or> unset (SUPABASE_ANON_KEY e)
      then (\<lparr>status = 500, body = ErrorBody SupabaseConfigurationMissing\<rparr>, s)
      else
        (case req_queryId req of
           None \<Rightarrow> (\<lparr>status = 400, body = ErrorBody MissingIdParameter\<rparr>, s)
         | Some id' \<Rightarrow>
             if id' = [] then (\<lparr>status = 400, body = ErrorBody MissingIdParameter\<rparr>, s)
             else
               (let cid = cleanId id' in
                if req_method req = ''POST'' then
                  (case incrementLike s cid of
                     (Inl error, s') \<Rightarrow>
                       (\<lparr>status = 500, body = ErrorBody InternalServerError\<rparr>, s')
                   | (Inr newCount, s') \<Rightarrow>
                       (\<lparr>status = 200, body = LikeAdded cid newCount\<rparr>, s'))
                else if req_method req = ''GET'' then
                  (case getLikeCount s cid of
                     (n, s') \<Rightarrow> (\<lparr>status = 200, body = LikeCount cid n\<rparr>, s'))
                else (\<lparr>status = 405, body = ErrorBody MethodNotAllowed\<rparr>, s))))"



section \<open>Required fields\<close>






text \<open>The request passes the checks made before the body is read: it is a POST, the
  three variables are set, and the key of the header is the configured one.\<close>

definition authorised :: "env \<Rightarrow> request \<Rightarrow> bool" where
  "authorised e req =
     (req_method req = ''POST'' \<and>
      \<not> unset (GITHUB_TOKEN e) \<and> \<not> unset (GITHUB_REPO e) \<and> \<not> unset (WRITE_ACCESS_KEY e) \<and>
      req_xAccessKey req = WRITE_ACCESS_KEY e)"

section \<open>The outcome of the existence check\<close>

text \<open>The existence check found a file: its reply is ok.\<close>

definition foundFile :: "fetch_result \<Rightarrow> bool" where
  "foundFile r = (case r of Rejected \<Rightarrow> False | Reply st b \<Rightarrow> isOk st)"

definition isDigit :: "char \<Rightarrow> bool" where
  "isDigit c = (c \<in> set ''0123456789'')"

section \<open>Properties of the experiment bucketing\<close>

subsection \<open>Rounding keeps the random value in range\<close>






lemma hashString_nonneg: "0 \<le> hashString s"
  by (simp add: hashString_def)




lemma selectLoop_None:
  "(selectLoop r c vs = None) = (\<forall>n<length vs. foldl (\<lambda>c kv. fl (c + fl (weight (snd kv) / 100))) c (take (Suc n) vs) < r)"
proof (induction vs arbitrary: c)
  case Nil
  then show ?case by simp
next
  case (Cons kv vs)
  obtain key v where kv: "kv = (key, v)" by (cases kv)
  show ?case
    by (auto simp: kv Let_def Cons.IH less_Suc_eq_0_disj not_le)
qed



subsection \<open>The claims about \<^verbatim>\<open>selectVariantForUser\<close>\<close>



text \<open>
  C3. The selection depends on the manager object only through the visitor id: two
  managers with the same \<open>userId\<close> (whatever their session, stored assignments or
  exposure records) select the same variant from the same configuration. The function
  has no other argument, so nothing else can influence it.
\<close>

theorem selectVariantForUser_deterministic:
  "userId m1 = userId m2 \<Longrightarrow> selectVariantForUser m1 vs = selectVariantForUser m2 vs"
  by (simp add: selectVariantForUser_def randomValue_def selectionKey_def)

theorem selectVariantForUser_deterministic_witness:
  "selectVariantForUser
     \<lparr>sessionId = ''ab_1'', userId = Some ''user_7'', userAssignments = [],
      exposureTracked = []\<rparr>
     [(''control'', \<lparr>weight = 50, name = ''A''\<rparr>), (''other'', \<lparr>weight = 50, name = ''B''\<rparr>)]
   = selectVariantForUser
     \<lparr>sessionId = ''ab_2'', userId = Some ''user_7'',
      userAssignments = [(''reading_experience'', ''control'')],
      exposureTracked = [''reading_experience'']\<rparr>
     [(''control'', \<lparr>weight = 50, name = ''A''\<rparr>), (''other'', \<lparr>weight = 50, name = ''B''\<rparr>)]"
  by (rule selectVariantForUser_deterministic) simp

text \<open>
  C1, as amended. When the loop ends without returning (the random value exceeds the
  cumulative weight after every entry, in particular the total), the variant returned is
  the first entry of the list: the code after the loop reads \<^verbatim>\<open>variantEntries[0]\<close>.
\<close>

theorem selectVariantForUser_fallback_first:
  assumes "vs \<noteq> []"
    and "\<forall>n<length vs. cumulativeWeightAfter vs (Suc n) < randomValue this"
  shows "selectVariantForUser this vs = Inr (hd vs)"
proof -
  from assms(2) have "selectLoop (randomValue this) 0 vs = None"
    by (simp add: selectLoop_None cumulativeWeightAfter_def)
  with assms(1) show ?thesis
    by (cases vs) (simp_all add: selectVariantForUser_def)
qed

theorem selectVariantForUser_fallback_first_witness:
  "selectVariantForUser
     \<lparr>sessionId = ''ab_1'', userId = Some ''user_0123456789abcdef0123456789abcdef'',
      userAssignments = [], exposureTracked = []\<rparr>
     [(''control'', \<lparr>weight = 30, name = ''A''\<rparr>), (''treatment'', \<lparr>weight = 30, name = ''B''\<rparr>)]
   = Inr (''control'', \<lparr>weight = 30, name = ''A''\<rparr>)"
proof -
  let ?m = "\<lparr>sessionId = ''ab_1'', userId = Some ''user_0123456789abcdef0123456789abcdef'',
      userAssignments = [], exposureTracked = []\<rparr>"
  let ?vs = "[(''control'', \<lparr>weight = 30, name = ''A''\<rparr>),
      (''treatment'', \<lparr>weight = 30, name = ''B''\<rparr>)]"
  have r: "randomValue ?m = 3349777402838175 / 4503599627370496"
    by code_simp
  have c1: "cumulativeWeightAfter ?vs (Suc 0) = 5404319552844595 / 18014398509481984"
    by code_simp
  have c2: "cumulativeWeightAfter ?vs (Suc (Suc 0)) = 5404319552844595 / 9007199254740992"
    by code_simp
  have h: "\<forall>n<length ?vs. cumulativeWeightAfter ?vs (Suc n) < randomValue ?m"
    by (simp add: less_Suc_eq r c1 c2)
  have "selectVariantForUser ?m ?vs = Inr (hd ?vs)"
    by (rule selectVariantForUser_fallback_first [OF _ h]) simp
  then show ?thesis by simp
qed

text \<open>
  The claim as stated fails: for the visitor above (random value 0.7438) and two variants
  of weight 30 each (total 0.6, below 1 and below the random value) the variant returned
  is the first one, \<^verbatim>\<open>control\<close>, not the last one.
\<close>

theorem selectVariantForUser_last_counterexample:
  "cumulativeWeightAfter
     [(''control'', \<lparr>weight = 30, name = ''A''\<rparr>), (''treatment'', \<lparr>weight = 30, name = ''B''\<rparr>)] 2
     < 1 \<and>
   cumulativeWeightAfter
     [(''control'', \<lparr>weight = 30, name = ''A''\<rparr>), (''treatment'', \<lparr>weight = 30, name = ''B''\<rparr>)] 2
     < randomValue
        \<lparr>sessionId = ''ab_1'', userId = Some ''user_0123456789abcdef0123456789abcdef'',
         userAssignments = [], exposureTracked = []\<rparr> \<and>
   selectVariantForUser
     \<lparr>sessionId = ''ab_1'', userId = Some ''user_0123456789abcdef0123456789abcdef'',
      userAssignments = [], exposureTracked = []\<rparr>
     [(''control'', \<lparr>weight = 30, name = ''A''\<rparr>), (''treatment'', \<lparr>weight = 30, name = ''B''\<rparr>)]
   \<noteq> Inr (last
     [(''control'', \<lparr>weight = 30, name = ''A''\<rparr>), (''treatment'', \<lparr>weight = 30, name = ''B''\<rparr>)])"
  by code_simp

section \<open>Properties of the event queue\<close>

subsection \<open>Requeueing after a failed send\<close>

lemma requeueOne_fields:
  "maxRetries (requeueOne t e) = maxRetries t" "batchSize (requeueOne t e) = batchSize t"
  "isOnline (requeueOne t e) = isOnline t" "flushTimer (requeueOne t e) = flushTimer t"
  by (simp_all add: requeueOne_def)

lemma requeueFailed_maxRetries: "maxRetries (requeueFailed t b) = maxRetries t"
  unfolding requeueFailed_def by (induction b arbitrary: t) (simp_all add: requeueOne_fields)

lemma requeueFailed_queue:
  "eventQueue (requeueFailed t b) =
     rev (map (\<lambda>e. e\<lparr>ev_retryCount := Some (retriesOf e + 1)\<rparr>)
            (filter (\<lambda>e. retriesOf e < maxRetries t) b)) @ eventQueue t"
  unfolding requeueFailed_def
proof (induction b arbitrary: t)
  case Nil
  then show ?case by simp
next
  case (Cons e b)
  show ?case
    by (simp add: Cons.IH requeueOne_fields) (simp add: requeueOne_def)
qed

lemma budgetQueued_append:
  "budgetQueued M P (xs @ ys) = budgetQueued M P xs + budgetQueued M P ys"
  by (simp add: budgetQueued_def)

lemma budgetInFlight_append:
  "budgetInFlight M P (xs @ ys) = budgetInFlight M P xs + budgetInFlight M P ys"
  by (simp add: budgetInFlight_def)

lemma budgetQueued_split:
  "\<forall>e \<in> set xs. retriesOf e \<le> M \<Longrightarrow>
   budgetQueued M P xs = length (filter P xs) + budgetInFlight M P xs"
  by (induction xs) (auto simp: budgetQueued_def budgetInFlight_def)

lemma budgetQueued_requeued:
  "budgetQueued M (sameEvent n d)
     (rev (map (\<lambda>e. e\<lparr>ev_retryCount := Some (retriesOf e + 1)\<rparr>)
        (filter (\<lambda>e. retriesOf e < M) b)))
   = budgetInFlight M (sameEvent n d) b"
proof -
  have "sum_list (map (\<lambda>e. M + 1 - retriesOf e) (filter (sameEvent n d)
          (map (\<lambda>e. e\<lparr>ev_retryCount := Some (retriesOf e + 1)\<rparr>)
             (filter (\<lambda>e. retriesOf e < M) b))))
        = sum_list (map (\<lambda>e. M - retriesOf e) (filter (sameEvent n d) b))"
    by (induction b) (auto simp: sameEvent_def retriesOf_def)
  then show ?thesis
    by (simp add: budgetQueued_def budgetInFlight_def rev_map [symmetric] rev_filter [symmetric]
        del: rev_map)
qed

lemma budgetQueued_requeueFailed:
  "budgetQueued (maxRetries t) (sameEvent n d) (eventQueue (requeueFailed t b))
   = budgetInFlight (maxRetries t) (sameEvent n d) b
     + budgetQueued (maxRetries t) (sameEvent n d) (eventQueue t)"
  by (simp only: requeueFailed_queue budgetQueued_append budgetQueued_requeued)

lemma requeued_bounded:
  "\<forall>e \<in> set (map (\<lambda>e. e\<lparr>ev_retryCount := Some (retriesOf e + 1)\<rparr>)
        (filter (\<lambda>e. retriesOf e < M) b)). retriesOf e \<le> M"
  by (auto simp: retriesOf_def)

lemma concat_settle:
  assumes "i < length bs"
  shows "budgetInFlight M P (concat bs)
       = budgetInFlight M P (concat (settle i bs)) + budgetInFlight M P (bs ! i)"
proof -
  have "bs = take i bs @ (bs ! i) # drop (Suc i) bs"
    using assms by (simp add: id_take_nth_drop)
  then have "concat bs = concat (take i bs) @ (bs ! i) @ concat (drop (Suc i) bs)"
    by (metis concat.simps(2) concat_append)
  then show ?thesis
    by (simp add: settle_def budgetInFlight_append)
qed

lemma set_concat_settle: "set (concat (settle i bs)) \<subseteq> set (concat bs)"
  unfolding settle_def
  by (auto dest: in_set_takeD in_set_dropD)

text \<open>Starting a send moves budget from the queue to the sends made and in flight.\<close>

lemma dispatched_flushQueue:
  assumes q: "\<forall>e \<in> set (eventQueue t). retriesOf e \<le> maxRetries t"
    and f: "\<forall>e \<in> set (concat (inFlight r)). retriesOf e \<le> maxRetries t"
  shows "sendBudget n d (dispatched r (flushQueue t s))
         = timesSent n d r + budgetQueued (maxRetries t) (sameEvent n d) (eventQueue t)
           + budgetInFlight (maxRetries t) (sameEvent n d) (concat (inFlight r))"
    and "boundedRetries (dispatched r (flushQueue t s))"
    and "maxRetries (tracker (dispatched r (flushQueue t s))) = maxRetries t"
proof -
  let ?q = "eventQueue t" and ?k = "batchSize t" and ?M = "maxRetries t"
  let ?P = "sameEvent n d"
  have tk: "\<forall>e \<in> set (take ?k ?q). retriesOf e \<le> ?M"
    using q by (auto dest: in_set_takeD)
  have dr: "\<forall>e \<in> set (drop ?k ?q). retriesOf e \<le> ?M"
    using q by (auto dest: in_set_dropD)
  have "budgetQueued ?M ?P ?q
        = budgetQueued ?M ?P (take ?k ?q) + budgetQueued ?M ?P (drop ?k ?q)"
    by (simp add: budgetQueued_append [symmetric])
  also have "budgetQueued ?M ?P (take ?k ?q)
        = length (filter ?P (take ?k ?q)) + budgetInFlight ?M ?P (take ?k ?q)"
    by (rule budgetQueued_split [OF tk])
  finally have split: "budgetQueued ?M ?P ?q
        = length (filter ?P (take ?k ?q)) + budgetInFlight ?M ?P (take ?k ?q)
          + budgetQueued ?M ?P (drop ?k ?q)" .
  show "sendBudget n d (dispatched r (flushQueue t s))
         = timesSent n d r + budgetQueued ?M ?P ?q + budgetInFlight ?M ?P (concat (inFlight r))"
    by (simp add: sendBudget_def dispatched_def flushQueue_def Let_def timesSent_def split
        budgetInFlight_append)
  show "boundedRetries (dispatched r (flushQueue t s))"
    using q f tk dr by (auto simp: boundedRetries_def dispatched_def flushQueue_def Let_def)
  show "maxRetries (tracker (dispatched r (flushQueue t s))) = ?M"
    by (simp add: dispatched_def flushQueue_def Let_def)
qed


lemma budget_fresh:
  "budgetQueued M (sameEvent n d) [\<lparr>ev_name = n', ev_data = d', ev_retryCount = None\<rparr>]
   = (if n' = n \<and> d' = d then M + 1 else 0)"
  by (simp add: budgetQueued_def sameEvent_def retriesOf_def)

lemma occur_Track:
  assumes "boundedRetries r"
  shows "sendBudget n d (occur r (Track n' d'))
         = sendBudget n d r + (if n' = n \<and> d' = d then maxRetries (tracker r) + 1 else 0)"
    and "boundedRetries (occur r (Track n' d'))"
    and "maxRetries (tracker (occur r (Track n' d'))) = maxRetries (tracker r)"
proof -
  let ?e = "\<lparr>ev_name = n', ev_data = d', ev_retryCount = None\<rparr>"
  let ?t = "(tracker r)\<lparr>eventQueue := eventQueue (tracker r) @ [?e]\<rparr>"
  have q: "\<forall>e \<in> set (eventQueue ?t). retriesOf e \<le> maxRetries ?t"
    using assms by (auto simp: boundedRetries_def retriesOf_def)
  have f: "\<forall>e \<in> set (concat (inFlight r)). retriesOf e \<le> maxRetries ?t"
    using assms by (auto simp: boundedRetries_def)
  have bq: "budgetQueued (maxRetries (tracker r)) (sameEvent n d) (eventQueue ?t)
      = budgetQueued (maxRetries (tracker r)) (sameEvent n d) (eventQueue (tracker r))
        + (if n' = n \<and> d' = d then maxRetries (tracker r) + 1 else 0)"
    by (simp add: budgetQueued_append budget_fresh)
  show "sendBudget n d (occur r (Track n' d'))
         = sendBudget n d r + (if n' = n \<and> d' = d then maxRetries (tracker r) + 1 else 0)"
  proof (cases "batchSize ?t \<le> length (eventQueue ?t)")
    case True
    then have "occur r (Track n' d') = dispatched r (flushQueue ?t False)"
      by (simp add: track_def addToQueue_def Let_def)
    then show ?thesis
      using dispatched_flushQueue(1) [OF q f, of n d False] bq
      by (simp add: sendBudget_def)
  next
    case False
    then have "occur r (Track n' d') = r\<lparr>tracker := ?t\<rparr>"
      by (simp add: track_def addToQueue_def Let_def dispatched_def)
    then show ?thesis
      using bq by (simp add: sendBudget_def timesSent_def)
  qed
  show "boundedRetries (occur r (Track n' d'))"
  proof (cases "batchSize ?t \<le> length (eventQueue ?t)")
    case True
    then have "occur r (Track n' d') = dispatched r (flushQueue ?t False)"
      by (simp add: track_def addToQueue_def Let_def)
    then show ?thesis
      using dispatched_flushQueue(2) [OF q f, of False] by simp
  next
    case False
    then have "occur r (Track n' d') = r\<lparr>tracker := ?t\<rparr>"
      by (simp add: track_def addToQueue_def Let_def dispatched_def)
    then show ?thesis
      using q f by (simp add: boundedRetries_def)
  qed
  show "maxRetries (tracker (occur r (Track n' d'))) = maxRetries (tracker r)"
    by (simp add: track_def addToQueue_def Let_def dispatched_def flushQueue_def)
qed

lemma occur_SendFailed:
  assumes "boundedRetries r"
  shows "sendBudget n d (occur r (SendFailed i)) = sendBudget n d r"
    and "boundedRetries (occur r (SendFailed i))"
    and "maxRetries (tracker (occur r (SendFailed i))) = maxRetries (tracker r)"
proof -
  let ?M = "maxRetries (tracker r)"
  show "maxRetries (tracker (occur r (SendFailed i))) = ?M"
    by (simp add: requeueFailed_maxRetries)
  show "sendBudget n d (occur r (SendFailed i)) = sendBudget n d r"
  proof (cases "i < length (inFlight r)")
    case True
    then show ?thesis
      using concat_settle [OF True, of ?M "sameEvent n d"]
      by (simp add: sendBudget_def timesSent_def requeueFailed_maxRetries
          budgetQueued_requeueFailed)
  next
    case False
    then show ?thesis by simp
  qed
  show "boundedRetries (occur r (SendFailed i))"
  proof (cases "i < length (inFlight r)")
    case True
    have "\<forall>e \<in> set (concat (settle i (inFlight r))). retriesOf e \<le> ?M"
      using assms set_concat_settle [of i "inFlight r"] by (auto simp: boundedRetries_def)
    moreover have "\<forall>e \<in> set (eventQueue (requeueFailed (tracker r) (inFlight r ! i))).
        retriesOf e \<le> ?M"
      using assms requeued_bounded [of ?M "inFlight r ! i"]
      by (auto simp: requeueFailed_queue boundedRetries_def)
    ultimately show ?thesis
      using True by (simp add: boundedRetries_def requeueFailed_maxRetries)
  next
    case False
    with assms show ?thesis by simp
  qed
qed

lemma occur_SendSucceeded:
  assumes "boundedRetries r"
  shows "sendBudget n d (occur r (SendSucceeded i)) \<le> sendBudget n d r"
    and "boundedRetries (occur r (SendSucceeded i))"
    and "maxRetries (tracker (occur r (SendSucceeded i))) = maxRetries (tracker r)"
proof -
  show "maxRetries (tracker (occur r (SendSucceeded i))) = maxRetries (tracker r)" by simp
  show "sendBudget n d (occur r (SendSucceeded i)) \<le> sendBudget n d r"
  proof (cases "i < length (inFlight r)")
    case True
    then show ?thesis
      using concat_settle [OF True, of "maxRetries (tracker r)" "sameEvent n d"]
      by (simp add: sendBudget_def timesSent_def)
  next
    case False
    then show ?thesis by simp
  qed
  show "boundedRetries (occur r (SendSucceeded i))"
    using assms set_concat_settle [of i "inFlight r"] by (auto simp: boundedRetries_def)
qed

lemma occur_flush:
  assumes "boundedRetries r"
    and "eventQueue t = eventQueue (tracker r)" "maxRetries t = maxRetries (tracker r)"
  shows "sendBudget n d (dispatched r (flushQueue t s)) = sendBudget n d r"
    and "boundedRetries (dispatched r (flushQueue t s))"
    and "maxRetries (tracker (dispatched r (flushQueue t s))) = maxRetries (tracker r)"
proof -
  have q: "\<forall>e \<in> set (eventQueue t). retriesOf e \<le> maxRetries t"
    and f: "\<forall>e \<in> set (concat (inFlight r)). retriesOf e \<le> maxRetries t"
    using assms by (auto simp: boundedRetries_def)
  show "sendBudget n d (dispatched r (flushQueue t s)) = sendBudget n d r"
    using dispatched_flushQueue(1) [OF q f, of n d s] assms(2,3) by (simp add: sendBudget_def)
  show "boundedRetries (dispatched r (flushQueue t s))"
    by (rule dispatched_flushQueue(2) [OF q f])
  show "maxRetries (tracker (dispatched r (flushQueue t s))) = maxRetries (tracker r)"
    using dispatched_flushQueue(3) [OF q f] assms(3) by simp
qed

lemma occur_step:
  assumes "boundedRetries r"
  shows "sendBudget n d (occur r oc)
         \<le> sendBudget n d r + (if oc = Track n d then maxRetries (tracker r) + 1 else 0)
         \<and> boundedRetries (occur r oc)
         \<and> maxRetries (tracker (occur r oc)) = maxRetries (tracker r)"
proof (cases oc)
  case (Track n' d')
  then show ?thesis
    using occur_Track(1) [OF assms, of n d n' d'] occur_Track(2,3) [OF assms, of n' d']
    by auto
next
  case TimerFires
  then show ?thesis using occur_flush(1) [OF assms, of "tracker r" n d False] occur_flush(2,3) [OF assms, of "tracker r" False] assms by simp
next
  case Online
  then show ?thesis
    using occur_flush(1) [OF assms, of "(tracker r)\<lparr>isOnline := True\<rparr>" n d False] occur_flush(2,3) [OF assms, of "(tracker r)\<lparr>isOnline := True\<rparr>" False] by simp
next
  case Offline
  then show ?thesis
    using assms by (simp add: sendBudget_def timesSent_def boundedRetries_def)
next
  case Hidden
  then show ?thesis using occur_flush(1) [OF assms, of "tracker r" n d False] occur_flush(2,3) [OF assms, of "tracker r" False] by simp
next
  case BeforeUnload
  then show ?thesis using occur_flush(1) [OF assms, of "tracker r" n d True] occur_flush(2,3) [OF assms, of "tracker r" True] by simp
next
  case (SendFailed i)
  then show ?thesis
    using occur_SendFailed(1) [OF assms, of n d i] occur_SendFailed(2,3) [OF assms, of i]
    by simp
next
  case (SendSucceeded i)
  then show ?thesis
    using occur_SendSucceeded(1) [OF assms, of n d i] occur_SendSucceeded(2,3) [OF assms, of i]
    by simp
next
  case ClearQueue
  then show ?thesis
    using assms by (simp add: sendBudget_def timesSent_def boundedRetries_def budgetQueued_def)
next
  case Stop
  then show ?thesis
    using assms by (simp add: sendBudget_def timesSent_def boundedRetries_def)
next
  case Start
  then show ?thesis
    using assms by (simp add: sendBudget_def timesSent_def boundedRetries_def)
qed

lemma runs_budget:
  assumes "boundedRetries r"
  shows "sendBudget n d (runs r os)
         \<le> sendBudget n d r + (maxRetries (tracker r) + 1) * timesTracked n d os
         \<and> boundedRetries (runs r os)
         \<and> maxRetries (tracker (runs r os)) = maxRetries (tracker r)"
  using assms
proof (induction os arbitrary: r)
  case Nil
  then show ?case by (simp add: runs_def timesTracked_def)
next
  case (Cons oc os)
  note st = occur_step [OF Cons.prems, of n d oc]
  then have b: "boundedRetries (occur r oc)" by simp
  note ih = Cons.IH [OF b]
  have tt: "timesTracked n d (oc # os)
      = (if oc = Track n d then 1 else 0) + timesTracked n d os"
    by (simp add: timesTracked_def)
  have "sendBudget n d (runs r (oc # os)) = sendBudget n d (runs (occur r oc) os)"
    by (simp add: runs_def)
  also have "\<dots> \<le> sendBudget n d (occur r oc)
      + (maxRetries (tracker r) + 1) * timesTracked n d os"
    using ih st by simp
  also have "\<dots> \<le> sendBudget n d r + (if oc = Track n d then maxRetries (tracker r) + 1 else 0)
      + (maxRetries (tracker r) + 1) * timesTracked n d os"
    using st by simp
  also have "\<dots> = sendBudget n d r + (maxRetries (tracker r) + 1) * timesTracked n d (oc # os)"
    by (simp add: tt)
  finally show ?case
    using ih st by (simp add: runs_def)
qed

lemma startRun_budget: "sendBudget n d (startRun on) = 0" "boundedRetries (startRun on)"
  "maxRetries (tracker (startRun on)) = 3"
  by (simp_all add: startRun_def sendBudget_def timesSent_def budgetQueued_def
      budgetInFlight_def boundedRetries_def newServerTracker_def)


lemma sendAsync_delays: "length (snd (sendAsync this attemptOk k)) \<le> maxRetries this - k"
proof (induction this attemptOk k rule: sendAsync.induct)
  case (1 this attemptOk retryCount)
  show ?case
  proof (cases "\<not> attemptOk retryCount \<and> retryCount < maxRetries this")
    case True
    with "1.IH" have "length (snd (sendAsync this attemptOk (retryCount + 1)))
        \<le> maxRetries this - (retryCount + 1)" by simp
    with True show ?thesis
      by (subst sendAsync.simps) (auto simp: split_def)
  next
    case False
    then show ?thesis by (subst sendAsync.simps) auto
  qed
qed

text \<open>
  C7. When the send of a batch has failed, exactly the events of the batch whose retry
  count is below \<open>maxRetries\<close> are put back (at the front of the queue, each with its
  count incremented); an event at the ceiling is not put back, and nothing else is done
  with it: \<open>requeueFailed\<close> is total and the tracker has no storage besides the queue.
  The constructor sets the ceiling to 3. Hence in every run of a tracker, whatever
  happens in whatever order, an event is handed to a send at most \<open>1 + 3\<close> times for
  each time it was tracked: once, and at most three resends. (Each such send is one call
  of \<^verbatim>\<open>sendAsync\<close>, which for its part waits and repeats the request at most
  \<open>maxRetries\<close> times.)
\<close>

theorem flushQueue_retry_ceiling:
  "eventQueue (requeueFailed this eventsToSend) =
     rev (map (\<lambda>e. e\<lparr>ev_retryCount := Some (retriesOf e + 1)\<rparr>)
            (filter (\<lambda>e. retriesOf e < maxRetries this) eventsToSend)) @ eventQueue this \<and>
   maxRetries (newServerTracker onLine) = 3 \<and>
   timesSent n d (runs (startRun onLine) os) \<le> (1 + 3) * timesTracked n d os \<and>
   length (snd (sendAsync this attemptOk 0)) \<le> maxRetries this"
proof (intro conjI)
  show "eventQueue (requeueFailed this eventsToSend) =
     rev (map (\<lambda>e. e\<lparr>ev_retryCount := Some (retriesOf e + 1)\<rparr>)
            (filter (\<lambda>e. retriesOf e < maxRetries this) eventsToSend)) @ eventQueue this"
    by (rule requeueFailed_queue)
  show "maxRetries (newServerTracker onLine) = 3"
    by (simp add: newServerTracker_def)
  have "timesSent n d (runs (startRun onLine) os) \<le> sendBudget n d (runs (startRun onLine) os)"
    by (simp add: sendBudget_def)
  also have "\<dots> \<le> 4 * timesTracked n d os"
    using runs_budget [OF startRun_budget(2), of n d onLine os] by (simp add: startRun_budget)
  finally show "timesSent n d (runs (startRun onLine) os) \<le> (1 + 3) * timesTracked n d os"
    by simp
  show "length (snd (sendAsync this attemptOk 0)) \<le> maxRetries this"
    using sendAsync_delays [of this attemptOk 0] by simp
qed

text \<open>
  One event is tracked and every send fails: the event is sent four times, then it is
  gone, and a fifth flush sends nothing.
\<close>

theorem flushQueue_retry_ceiling_witness:
  "timesSent ''page_view'' []
     (runs (startRun True)
        [Track ''page_view'' [], Hidden, SendFailed 0, Hidden, SendFailed 0, Hidden,
         SendFailed 0, Hidden, SendFailed 0, Hidden]) = 4 \<and>
   timesTracked ''page_view'' []
        [Track ''page_view'' [], Hidden, SendFailed 0, Hidden, SendFailed 0, Hidden,
         SendFailed 0, Hidden, SendFailed 0, Hidden] = 1 \<and>
   eventQueue (tracker (runs (startRun True)
        [Track ''page_view'' [], Hidden, SendFailed 0, Hidden, SendFailed 0, Hidden,
         SendFailed 0, Hidden, SendFailed 0, Hidden])) = []"
proof -
  let ?os = "[Track ''page_view'' [], Hidden, SendFailed 0, Hidden, SendFailed 0, Hidden,
         SendFailed 0, Hidden, SendFailed 0, Hidden]"
  let ?T = "\<lambda>q. \<lparr>batchSize = 10, flushInterval = 30000, maxRetries = 3, retryDelay = 1000,
      eventQueue = q, isOnline = True, flushTimer = True\<rparr>"
  let ?E = "\<lambda>c. \<lparr>ev_name = ''page_view'', ev_data = [], ev_retryCount = c\<rparr>"
  let ?P = "\<lambda>c. (False, \<lparr>events = [?E c], batch = False\<rparr>)"
  have le: "timesSent ''page_view'' [] (runs (startRun True) ?os)
      \<le> (1 + 3) * timesTracked ''page_view'' [] ?os"
    using flushQueue_retry_ceiling [of _ _ True "''page_view''" "[]" ?os] by blast
  have tr: "timesTracked ''page_view'' [] ?os = 1"
    by (simp add: timesTracked_def)
  have r0: "startRun True = \<lparr>tracker = ?T [], inFlight = [], sent = []\<rparr>"
    by (simp add: startRun_def newServerTracker_def)
  have s1: "occur \<lparr>tracker = ?T [], inFlight = [], sent = s\<rparr> (Track ''page_view'' [])
      = \<lparr>tracker = ?T [?E None], inFlight = [], sent = s\<rparr>" for s
    by (simp add: track_def addToQueue_def dispatched_def)
  have s2: "occur \<lparr>tracker = ?T [?E c], inFlight = [], sent = s\<rparr> Hidden
      = \<lparr>tracker = ?T [], inFlight = [[?E c]], sent = s @ [?P c]\<rparr>" for c s
    by (simp add: flushQueue_def dispatched_def)
  have s3: "occur \<lparr>tracker = ?T [], inFlight = [[?E c]], sent = s\<rparr> (SendFailed 0)
      = \<lparr>tracker = ?T (if retriesOf (?E c) < 3 then [?E (Some (retriesOf (?E c) + 1))] else []),
         inFlight = [], sent = s\<rparr>" for c s
    by (simp add: requeueFailed_def requeueOne_def settle_def)
  have s4: "occur \<lparr>tracker = ?T [], inFlight = [], sent = s\<rparr> Hidden
      = \<lparr>tracker = ?T [], inFlight = [], sent = s\<rparr>" for s
    by (simp add: flushQueue_def dispatched_def)
  have rc: "retriesOf (?E c) = (case c of None \<Rightarrow> 0 | Some k \<Rightarrow> k)" for c
    by (simp add: retriesOf_def)
  have fin: "runs (startRun True) ?os
      = \<lparr>tracker = ?T [], inFlight = [],
         sent = [?P None, ?P (Some 1), ?P (Some 2), ?P (Some 3)]\<rparr>"
    unfolding runs_def r0 foldl.simps s1 s2 s3 rc
    by (simp add: s2 s3 s4 rc del: occur.simps)
  have ge: "timesSent ''page_view'' [] (runs (startRun True) ?os) = 4"
    unfolding fin by (simp add: timesSent_def sameEvent_def)
  have q: "eventQueue (tracker (runs (startRun True) ?os)) = []"
    unfolding fin by simp
  from le tr ge q show ?thesis by simp
qed

subsection \<open>Enqueueing and the batch size\<close>

lemma runs_Track_below:
  "length (eventQueue (tracker r)) + length es < batchSize (tracker r) \<Longrightarrow>
   runs r (map (\<lambda>(n, d). Track n d) es)
   = r\<lparr>tracker := (tracker r)\<lparr>eventQueue := eventQueue (tracker r)
        @ map (\<lambda>(n, d). \<lparr>ev_name = n, ev_data = d, ev_retryCount = None\<rparr>) es\<rparr>\<rparr>"
proof (induction es arbitrary: r)
  case Nil
  then show ?case by (simp add: runs_def)
next
  case (Cons x es)
  obtain n d where x: "x = (n, d)" by (cases x)
  let ?e = "\<lparr>ev_name = n, ev_data = d, ev_retryCount = None\<rparr>"
  let ?r = "r\<lparr>tracker := (tracker r)\<lparr>eventQueue := eventQueue (tracker r) @ [?e]\<rparr>\<rparr>"
  have step: "occur r (Track n d) = ?r"
    using Cons.prems
    by (simp add: track_def addToQueue_def Let_def dispatched_def)
  have "length (eventQueue (tracker ?r)) + length es < batchSize (tracker ?r)"
    using Cons.prems by simp
  from Cons.IH [OF this] show ?case
    by (simp add: runs_def x step del: occur.simps)
qed

lemma runs_Track_offline:
  "\<not> isOnline (tracker r) \<Longrightarrow>
   runs r (map (\<lambda>(n, d). Track n d) es)
   = r\<lparr>tracker := (tracker r)\<lparr>eventQueue := eventQueue (tracker r)
        @ map (\<lambda>(n, d). \<lparr>ev_name = n, ev_data = d, ev_retryCount = None\<rparr>) es\<rparr>\<rparr>"
proof (induction es arbitrary: r)
  case Nil
  then show ?case by (simp add: runs_def)
next
  case (Cons x es)
  obtain n d where x: "x = (n, d)" by (cases x)
  let ?e = "\<lparr>ev_name = n, ev_data = d, ev_retryCount = None\<rparr>"
  let ?r = "r\<lparr>tracker := (tracker r)\<lparr>eventQueue := eventQueue (tracker r) @ [?e]\<rparr>\<rparr>"
  have step: "occur r (Track n d) = ?r"
    using Cons.prems
    by (simp add: track_def addToQueue_def flushQueue_def Let_def dispatched_def)
  have "\<not> isOnline (tracker ?r)"
    using Cons.prems by simp
  from Cons.IH [OF this] show ?case
    by (simp add: runs_def x step del: occur.simps)
qed

text \<open>
  C6, as amended. Calls of \<^verbatim>\<open>track\<close> that keep the queue below the batch size (10 for
  a tracker made by the constructor) start no send: the events are appended to the queue
  and wait there; the timer, when it fires with the tracker online, sends them. The call
  that brings the queue to the batch size calls \<^verbatim>\<open>flushQueue\<close>, which starts an
  asynchronous send of the first \<open>batchSize\<close> events at once if the tracker is online,
  and starts none while it is offline: the event just stays in the queue.
\<close>

theorem addToQueue_threshold:
  "batchSize (newServerTracker onLine) = 10 \<and>
   (length (eventQueue (tracker r)) + length es < batchSize (tracker r) \<longrightarrow>
      sent (runs r (map (\<lambda>(n, d). Track n d) es)) = sent r \<and>
      eventQueue (tracker (runs r (map (\<lambda>(n, d). Track n d) es)))
        = eventQueue (tracker r)
          @ map (\<lambda>(n, d). \<lparr>ev_name = n, ev_data = d, ev_retryCount = None\<rparr>) es) \<and>
   (flushTimer (tracker r) \<and> eventQueue (tracker r) \<noteq> [] \<and> isOnline (tracker r) \<longrightarrow>
      sent (occur r TimerFires)
        = sent r @ [(False, \<lparr>events = take (batchSize (tracker r)) (eventQueue (tracker r)),
             batch = (1 < length (take (batchSize (tracker r)) (eventQueue (tracker r))))\<rparr>)]) \<and>
   (batchSize this \<le> length (eventQueue this) + 1 \<and> isOnline this \<longrightarrow>
      addToQueue this e
        = (this\<lparr>eventQueue := drop (batchSize this) (eventQueue this @ [e])\<rparr>,
           Some (False, \<lparr>events = take (batchSize this) (eventQueue this @ [e]),
             batch = (1 < length (take (batchSize this) (eventQueue this @ [e])))\<rparr>))) \<and>
   (\<not> isOnline this \<longrightarrow>
      addToQueue this e = (this\<lparr>eventQueue := eventQueue this @ [e]\<rparr>, None))"
proof (intro conjI impI)
  show "batchSize (newServerTracker onLine) = 10"
    by (simp add: newServerTracker_def)
next
  assume "length (eventQueue (tracker r)) + length es < batchSize (tracker r)"
  from runs_Track_below [OF this]
  show "sent (runs r (map (\<lambda>(n, d). Track n d) es)) = sent r"
    and "eventQueue (tracker (runs r (map (\<lambda>(n, d). Track n d) es)))
        = eventQueue (tracker r)
          @ map (\<lambda>(n, d). \<lparr>ev_name = n, ev_data = d, ev_retryCount = None\<rparr>) es"
    by simp_all
next
  assume "flushTimer (tracker r) \<and> eventQueue (tracker r) \<noteq> [] \<and> isOnline (tracker r)"
  then show "sent (occur r TimerFires)
        = sent r @ [(False, \<lparr>events = take (batchSize (tracker r)) (eventQueue (tracker r)),
             batch = (1 < length (take (batchSize (tracker r)) (eventQueue (tracker r))))\<rparr>)]"
    by (simp add: flushQueue_def dispatched_def Let_def)
next
  assume "batchSize this \<le> length (eventQueue this) + 1 \<and> isOnline this"
  then show "addToQueue this e
        = (this\<lparr>eventQueue := drop (batchSize this) (eventQueue this @ [e])\<rparr>,
           Some (False, \<lparr>events = take (batchSize this) (eventQueue this @ [e]),
             batch = (1 < length (take (batchSize this) (eventQueue this @ [e])))\<rparr>))"
    by (simp add: addToQueue_def flushQueue_def Let_def)
next
  assume "\<not> isOnline this"
  then show "addToQueue this e = (this\<lparr>eventQueue := eventQueue this @ [e]\<rparr>, None)"
    by (simp add: addToQueue_def flushQueue_def Let_def)
qed

text \<open>
  A tracker made online: nine tracked events start no send; the tenth starts the send
  of all ten.
\<close>

theorem addToQueue_threshold_witness:
  "sent (runs (startRun True) (map (\<lambda>(n, d). Track n d) (replicate 9 (''click'', [])))) = [] \<and>
   snd (addToQueue
     (tracker (runs (startRun True) (map (\<lambda>(n, d). Track n d) (replicate 9 (''click'', [])))))
     \<lparr>ev_name = ''click'', ev_data = [], ev_retryCount = None\<rparr>)
   = Some (False, \<lparr>events = replicate 10 \<lparr>ev_name = ''click'', ev_data = [], ev_retryCount = None\<rparr>,
        batch = True\<rparr>)"
proof -
  let ?r = "startRun True"
  let ?es = "replicate 9 (''click'', [] :: (string \<times> string) list)"
  let ?e = "\<lparr>ev_name = ''click'', ev_data = [], ev_retryCount = None\<rparr>"
  have below: "length (eventQueue (tracker ?r)) + length ?es < batchSize (tracker ?r)"
    by (simp add: startRun_def newServerTracker_def)
  from addToQueue_threshold [of True ?r ?es] below
  have s: "sent (runs ?r (map (\<lambda>(n, d). Track n d) ?es)) = sent ?r"
    and q: "eventQueue (tracker (runs ?r (map (\<lambda>(n, d). Track n d) ?es)))
        = eventQueue (tracker ?r)
          @ map (\<lambda>(n, d). \<lparr>ev_name = n, ev_data = d, ev_retryCount = None\<rparr>) ?es"
    by blast+
  define t where "t = tracker (runs ?r (map (\<lambda>(n, d). Track n d) ?es))"
  have t: "t = (newServerTracker True)\<lparr>eventQueue := replicate 9 ?e\<rparr>"
    unfolding t_def using runs_Track_below [OF below]
    by (simp add: startRun_def newServerTracker_def)
  have "batchSize t \<le> length (eventQueue t) + 1 \<and> isOnline t"
    by (simp add: t newServerTracker_def)
  with addToQueue_threshold [of True ?r ?es t ?e]
  have "addToQueue t ?e
        = (t\<lparr>eventQueue := drop (batchSize t) (eventQueue t @ [?e])\<rparr>,
           Some (False, \<lparr>events = take (batchSize t) (eventQueue t @ [?e]),
             batch = (1 < length (take (batchSize t) (eventQueue t @ [?e])))\<rparr>))"
    by blast
  moreover have "replicate 10 ?e = ?e # replicate 9 ?e"
    by (simp add: eval_nat_numeral)
  ultimately have "snd (addToQueue t ?e)
      = Some (False, \<lparr>events = replicate 10 ?e, batch = True\<rparr>)"
    by (simp add: t newServerTracker_def replicate_append_same)
  with s show ?thesis
    unfolding t_def by (simp add: startRun_def)
qed

text \<open>
  The claim as stated fails: on a tracker that is offline, the tenth event brings the
  queue to the batch size and no send is started.
\<close>

theorem addToQueue_threshold_counterexample:
  "batchSize (tracker (runs (startRun False)
      (map (\<lambda>(n, d). Track n d) (replicate 10 (''click'', []))))) = 10 \<and>
   length (eventQueue (tracker (runs (startRun False)
      (map (\<lambda>(n, d). Track n d) (replicate 10 (''click'', [])))))) = 10 \<and>
   sent (runs (startRun False)
      (map (\<lambda>(n, d). Track n d) (replicate 10 (''click'', [])))) = []"
proof -
  have "\<not> isOnline (tracker (startRun False))"
    by (simp add: startRun_def newServerTracker_def)
  from runs_Track_offline [OF this, of "replicate 10 (''click'', [])"]
  show ?thesis
    by (simp add: startRun_def newServerTracker_def)
qed

section \<open>Properties of the content-write functions\<close>

subsection \<open>Evaluation\<close>

lemmas js_defs = trim_def isSpace_def toLowerCase_def upperCaseUnits_def lowerCaseUnits_def
  join_def digitChar_def endsWith_def lastSegment_def
  unset_def interpolated_def isOk_def contentsUrl_def bazinga_def

lemmas post_defs = handler_post_def publishPost_def generateSlug_def cleanSlug_def
  keepSlugUnit_def stripHyphens_def escapeYAML_def isValidFilename_def createMarkdown_def
  postFilename_def commitToGitHub_post_def postCreatedResponse_def
  putOutcome_def respondToError_def

lemmas sample_defs = samplePlatform_def sampleEnv_def sampleRepo_def
  github_fetch_def fileReply_def

subsection \<open>The checks before the body is read, and the required fields\<close>



lemma handler_post_unauthorised:
  assumes "unset (req_xAccessKey req) \<or> req_xAccessKey req \<noteq> WRITE_ACCESS_KEY e"
  shows "snd (handler_post P e w req) = (w, [])"
    and "req_method req = ''POST'' \<Longrightarrow> \<not> unset (GITHUB_TOKEN e) \<Longrightarrow> \<not> unset (GITHUB_REPO e)
         \<Longrightarrow> \<not> unset (WRITE_ACCESS_KEY e)
         \<Longrightarrow> fst (handler_post P e w req)
             = Inr \<lparr>status = 401, body = ErrorBody InvalidAccessKey\<rparr>"
  using assms by (auto simp: handler_post_def)

lemma handler_note_unauthorised:
  assumes "unset (req_xAccessKey req) \<or> req_xAccessKey req \<noteq> WRITE_ACCESS_KEY e"
  shows "snd (handler_note P e w req) = (w, [])"
    and "req_method req = ''POST'' \<Longrightarrow> \<not> unset (GITHUB_TOKEN e) \<Longrightarrow> \<not> unset (GITHUB_REPO e)
         \<Longrightarrow> \<not> unset (WRITE_ACCESS_KEY e)
         \<Longrightarrow> fst (handler_note P e w req)
             = Inr \<lparr>status = 401, body = ErrorBody InvalidAccessKey\<rparr>"
  using assms by (auto simp: handler_note_def)

lemma authorised_key: "authorised e req \<Longrightarrow>
   \<not> (unset (req_xAccessKey req) \<or> req_xAccessKey req \<noteq> WRITE_ACCESS_KEY e)"
  by (auto simp: authorised_def)



subsection \<open>The response of post creation\<close>

lemma postCreatedResponse_status:
  "postCreatedResponse cr fn slug = Inr res \<Longrightarrow> status res = 200"
  by (auto simp: postCreatedResponse_def Let_def split: if_splits jsval.splits)

text \<open>A run of post creation that has called \<^verbatim>\<open>fetch\<close> got as far as the commit.\<close>

lemma handler_post_committing:
  assumes "handler_post P e w req = (r, w', calls)" "calls \<noteq> []"
  shows "\<exists>b titleStr bodyStr. publishPost P e w b titleStr bodyStr = (r, w', calls)"
  using assms unfolding handler_post_def Let_def
  by (auto split: if_splits sum.splits)

subsection \<open>File names, time stamps and the calls of post creation\<close>

lemma startsWith_append: "startsWith s p \<Longrightarrow> \<exists>t. s = p @ t"
  by (induction s p rule: startsWith.induct) auto

lemma endsWith_append: "endsWith s p \<Longrightarrow> \<exists>stem. s = stem @ p"
proof -
  assume "endsWith s p"
  then obtain t where "rev s = rev p @ t"
    unfolding endsWith_def using startsWith_append by blast
  then have "rev (rev s) = rev (rev p @ t)" by simp
  then have "s = rev t @ p" by simp
  then show ?thesis by blast
qed

lemma postFilename_md: "\<exists>stem. postFilename info slug pf = stem @ ''.md''"
proof (cases "isValidFilename pf")
  case True
  then obtain s where "pf = JStr s" "endsWith s ''.md''"
    by (auto simp: isValidFilename_def split: jsval.splits)
  with True endsWith_append [of s "''.md''"] show ?thesis
    by (auto simp: postFilename_def Let_def)
next
  case False
  then have "postFilename info slug pf = (filenameBase info @ ''-'' @ slug) @ ''.md''"
    by (auto simp: postFilename_def Let_def split: jsval.splits)
  then show ?thesis by blast
qed

lemma suffixedBeforeLastDot_md:
  "suffixedBeforeLastDot (stem @ ''.md'') ts = stem @ ''-'' @ ts @ ''.md''"
  by (simp add: suffixedBeforeLastDot_def)

lemma digitChar_isDigit: "d < 10 \<Longrightarrow> isDigit (digitChar d)"
  unfolding isDigit_def digitChar_def by (rule nth_mem) simp

lemma showNat_digits: "\<forall>c \<in> set (showNat n). isDigit c"
proof (induction n rule: showNat.induct)
  case (1 n)
  show ?case
  proof (cases "n < 10")
    case True
    then show ?thesis by (subst showNat.simps) (simp add: digitChar_isDigit)
  next
    case False
    with "1.IH" have "\<forall>c \<in> set (showNat (n div 10)). isDigit c" by simp
    with False show ?thesis
      by (subst showNat.simps) (simp add: digitChar_isDigit)
  qed
qed

lemma showNat_length: "10 ^ k \<le> n \<Longrightarrow> k < length (showNat n)"
proof (induction k arbitrary: n)
  case 0
  then show ?case by (subst showNat.simps) simp
next
  case (Suc k)
  then have "10 ^ k \<le> n div 10" by simp
  then have "k < length (showNat (n div 10))" by (rule Suc.IH)
  moreover have "\<not> n < 10"
  proof
    assume "n < 10"
    moreover have "(10::nat) \<le> 10 ^ Suc k" by simp
    ultimately show False using Suc.prems by simp
  qed
  ultimately show ?case by (subst showNat.simps) simp
qed

lemma timestamp6_digits:
  assumes "100000 \<le> t"
  shows "length (timestamp6 t) = 6 \<and> (\<forall>c \<in> set (timestamp6 t). isDigit c)"
proof -
  have "(10::nat) ^ 5 \<le> t" using assms by simp
  then have "5 < length (showNat t)" by (rule showNat_length)
  then have "length (timestamp6 t) = 6"
    by (simp add: timestamp6_def Let_def)
  moreover have "\<forall>c \<in> set (timestamp6 t). isDigit c"
    using showNat_digits [of t] by (auto simp: timestamp6_def Let_def dest: in_set_dropD)
  ultimately show ?thesis by simp
qed

text \<open>The two calls of \<^verbatim>\<open>commitToGitHub\<close> of post creation.\<close>

lemma commitToGitHub_post_trace:
  assumes "commitToGitHub_post P w token repo (stem @ ''.md'') c m = (r, w', calls)"
  shows "\<exists>chkReply putReply w1 payload.
           calls = [(\<lparr>rq_method = ''GET'', rq_url = contentsUrl repo (stem @ ''.md''),
                      rq_token = token, rq_userAgent = ''site-post-writer'', rq_body = None\<rparr>,
                     chkReply),
                    (\<lparr>rq_method = ''PUT'',
                      rq_url = contentsUrl repo
                        (if foundFile chkReply
                         then stem @ ''-'' @ timestamp6 (fst (dateNow P w1)) @ ''.md''
                         else stem @ ''.md''),
                      rq_token = token, rq_userAgent = ''site-post-writer'',
                      rq_body = Some payload\<rparr>, putReply)] \<and>
           sha payload = JUndefined \<and> branch payload = ''main'' \<and>
           chkReply = fst (fetch P w (\<lparr>rq_method = ''GET'',
                      rq_url = contentsUrl repo (stem @ ''.md''),
                      rq_token = token, rq_userAgent = ''site-post-writer'', rq_body = None\<rparr>)) \<and>
           w1 = snd (fetch P w (\<lparr>rq_method = ''GET'',
                      rq_url = contentsUrl repo (stem @ ''.md''),
                      rq_token = token, rq_userAgent = ''site-post-writer'', rq_body = None\<rparr>))"
  using assms
  unfolding commitToGitHub_post_def Let_def
  by (auto simp: foundFile_def suffixedBeforeLastDot_md split: prod.splits fetch_result.splits
      if_splits)

subsection \<open>Post creation on a repository\<close>

lemma onGithubD:
  assumes "onGithub P"
  shows "fetch P = github_fetch"
    and "dateNow P g = (t, g') \<Longrightarrow> files g' = files g"
    and "buildPublishInfo P g d = (info, g') \<Longrightarrow> files g' = files g"
    and "noteTimes P g = (nt, g') \<Longrightarrow> files g' = files g"
proof -
  from assms show "fetch P = github_fetch" by (simp add: onGithub_def)
  from assms have a: "\<forall>g. files (snd (dateNow P g)) = files g"
    and b: "\<forall>g d. files (snd (buildPublishInfo P g d)) = files g"
    and c: "\<forall>g. files (snd (noteTimes P g)) = files g"
    by (simp_all add: onGithub_def)
  show "dateNow P g = (t, g') \<Longrightarrow> files g' = files g"
    using a by (metis snd_conv)
  show "buildPublishInfo P g d = (info, g') \<Longrightarrow> files g' = files g"
    using b by (metis snd_conv)
  show "noteTimes P g = (nt, g') \<Longrightarrow> files g' = files g"
    using c by (metis snd_conv)
qed

lemma generateSlug_files:
  "onGithub P \<Longrightarrow> generateSlug P g src = (slug, g') \<Longrightarrow> files g' = files g"
  by (auto simp: generateSlug_def Let_def split: if_splits prod.splits sum.splits
      dest: onGithubD(2))

lemma createMarkdown_files:
  "onGithub P \<Longrightarrow> createMarkdown P g t b s l f i it d = (md, g') \<Longrightarrow> files g' = files g"
  by (auto simp: createMarkdown_def Let_def split: if_splits prod.splits sum.splits
      dest: generateSlug_files)

lemma github_fetch_GET:
  "rq_method rq = ''GET'' \<Longrightarrow> github_fetch g rq = (r, g') \<Longrightarrow> g' = g"
  by (auto simp: github_fetch_def split: option.splits)

text \<open>A PUT without a \<^verbatim>\<open>sha\<close>: refused when the URL has a file, a creation otherwise.\<close>

lemma github_fetch_PUT_without_sha:
  assumes "rq_method rq = ''PUT''" "rq_body rq = Some p" "sha p = JUndefined"
    and "github_fetch g rq = (r, g')"
  shows "(\<forall>u f. files g u = Some f \<longrightarrow> files g' u = Some f)"
    and "(\<exists>v. putOutcome r = Inr v) \<longrightarrow>
         (\<exists>f. files g (rq_url rq) = None \<and> files g' = (files g)(rq_url rq := Some f))"
  using assms
  by (auto simp: github_fetch_def Let_def putOutcome_def isOk_def split: option.splits if_splits)

lemma commitToGitHub_post_files:
  assumes g: "onGithub P"
    and c: "commitToGitHub_post P g token repo filepath c m = (r, g', calls)"
  shows "(\<forall>u f. files g u = Some f \<longrightarrow> files g' u = Some f) \<and>
         ((\<exists>v. r = Inr v) \<longrightarrow> (\<exists>u f. files g u = None \<and> files g' = (files g)(u := Some f)))"
proof -
  let ?chk = "\<lparr>rq_method = ''GET'', rq_url = contentsUrl repo filepath,
            rq_token = token, rq_userAgent = ''site-post-writer'', rq_body = None\<rparr>"
  let ?p = "\<lparr>message = m, content = base64 P c, branch = ''main'',
            author = bazinga, committer = bazinga, sha = JUndefined\<rparr>"
  let ?put = "\<lambda>target. \<lparr>rq_method = ''PUT'', rq_url = contentsUrl repo target,
            rq_token = token, rq_userAgent = ''site-post-writer'', rq_body = Some ?p\<rparr>"
  obtain chkReply g1 where f1: "github_fetch g ?chk = (chkReply, g1)"
    by (cases "github_fetch g ?chk")
  then have g1: "g1 = g" using github_fetch_GET [of ?chk g chkReply g1] by simp
  have "\<exists>target g2 reply. files g2 = files g \<and>
          github_fetch g2 (?put target) = (reply, g') \<and> r = putOutcome reply"
  proof (cases "foundFile chkReply")
    case True
    obtain t g2 where d: "dateNow P g = (t, g2)" by (cases "dateNow P g")
    obtain reply g3 where f2:
      "github_fetch g2 (?put (suffixedBeforeLastDot filepath (timestamp6 t))) = (reply, g3)"
      by (cases "github_fetch g2 (?put (suffixedBeforeLastDot filepath (timestamp6 t)))")
    have "r = putOutcome reply \<and> g' = g3"
      using c True f1 g1 d f2
      by (auto simp: commitToGitHub_post_def Let_def onGithubD(1) [OF g] foundFile_def
          split: fetch_result.splits if_splits)
    with f2 onGithubD(2) [OF g d] show ?thesis by blast
  next
    case False
    obtain reply g3 where f2: "github_fetch g (?put filepath) = (reply, g3)"
      by (cases "github_fetch g (?put filepath)")
    have "r = putOutcome reply \<and> g' = g3"
      using c False f1 g1 f2
      by (auto simp: commitToGitHub_post_def Let_def onGithubD(1) [OF g] foundFile_def
          split: fetch_result.splits if_splits)
    with f2 show ?thesis by blast
  qed
  then obtain target g2 reply where g2: "files g2 = files g"
    and f2: "github_fetch g2 (?put target) = (reply, g')" and r: "r = putOutcome reply"
    by blast
  from github_fetch_PUT_without_sha [OF _ _ _ f2, of ?p]
  have "(\<forall>u f. files g2 u = Some f \<longrightarrow> files g' u = Some f)"
    and "(\<exists>v. putOutcome reply = Inr v) \<longrightarrow>
         (\<exists>f. files g2 (rq_url (?put target)) = None
              \<and> files g' = (files g2)(rq_url (?put target) := Some f))"
    by simp_all
  then show ?thesis
    unfolding r g2 by blast
qed

lemma publishPost_files:
  assumes g: "onGithub P"
    and p: "publishPost P e g b titleStr bodyStr = (r, g', calls)"
  shows "(\<forall>u f. files g u = Some f \<longrightarrow> files g' u = Some f) \<and>
         ((\<exists>res. r = Inr res \<and> status res = 200) \<longrightarrow>
            (\<exists>u f. files g u = None \<and> files g' = (files g)(u := Some f)))"
proof -
  have e500: "status (respondToError e error) \<noteq> 200" for error
    by (simp add: respondToError_def)
  obtain sl g1 where s1: "generateSlug P g
      (if truthy (getProp b ''slug'') then getProp b ''slug'' else getProp b ''title'') = (sl, g1)"
    by (cases "generateSlug P g
      (if truthy (getProp b ''slug'') then getProp b ''slug'' else getProp b ''title'')")
  from generateSlug_files [OF g s1] have f1: "files g1 = files g" .
  show ?thesis
  proof (cases sl)
    case (Inl err)
    with p s1 have "g' = g1" "r = Inl err"
      by (simp_all add: publishPost_def Let_def)
    with f1 show ?thesis by simp
  next
    case (Inr cleanedSlug)
    obtain info g2 where s2: "buildPublishInfo P g1 (getProp b ''date'') = (info, g2)"
      by (cases "buildPublishInfo P g1 (getProp b ''date'')")
    from onGithubD(3) [OF g s2] have f2: "files g2 = files g1" .
    let ?lang = "case (if getProp b ''lang'' = JUndefined then JStr ''zh-CN''
                       else getProp b ''lang'') of
                   JStr l \<Rightarrow> if trim l \<noteq> [] then trim l else ''zh-CN''
                 | _ \<Rightarrow> ''zh-CN''"
    let ?feature = "getProp b ''feature'' = JNum ''1'' \<or> getProp b ''feature'' = JStr ''1''
        \<or> getProp b ''feature'' = JBool True"
    obtain md g3 where s3: "createMarkdown P g2 (trim titleStr) (trim bodyStr) cleanedSlug
        ?lang ?feature (getProp b ''image'') (getProp b ''image_text'') (frontMatter info)
        = (md, g3)"
      by (cases "createMarkdown P g2 (trim titleStr) (trim bodyStr) cleanedSlug
        ?lang ?feature (getProp b ''image'') (getProp b ''image_text'') (frontMatter info)")
    from createMarkdown_files [OF g s3] have f3: "files g3 = files g2" .
    show ?thesis
    proof (cases md)
      case (Inl err)
      with p s1 \<open>sl = Inr cleanedSlug\<close> s2 s3 have "g' = g3" "r = Inl err"
        by (simp_all add: publishPost_def Let_def)
      with f1 f2 f3 show ?thesis by simp
    next
      case mdr: (Inr markdown)
      let ?fn = "postFilename info cleanedSlug (getProp b ''filename'')"
      obtain committed g4 cs where s4:
        "commitToGitHub_post P g3 (interpolated (GITHUB_TOKEN e)) (interpolated (GITHUB_REPO e))
           (''_posts/'' @ ?fn) markdown (''feat: add post: '' @ cleanedSlug) = (committed, g4, cs)"
        by (cases "commitToGitHub_post P g3 (interpolated (GITHUB_TOKEN e))
           (interpolated (GITHUB_REPO e)) (''_posts/'' @ ?fn) markdown
           (''feat: add post: '' @ cleanedSlug)") auto
      from commitToGitHub_post_files [OF g s4]
      have kept: "\<forall>u f. files g3 u = Some f \<longrightarrow> files g4 u = Some f"
        and fresh: "(\<exists>v. committed = Inr v) \<longrightarrow>
           (\<exists>u f. files g3 u = None \<and> files g4 = (files g3)(u := Some f))"
        by simp_all
      have r: "g' = g4 \<and> ((\<exists>res. r = Inr res \<and> status res = 200) \<longrightarrow> (\<exists>v. committed = Inr v))"
        using p s1 \<open>sl = Inr cleanedSlug\<close> s2 s3 mdr s4
        by (auto simp: publishPost_def Let_def e500 split: sum.splits)
      have f: "files g3 = files g" using f1 f2 f3 by simp
      from r kept fresh show ?thesis unfolding f by blast
    qed
  qed
qed

subsection \<open>The claims about the content-write functions\<close>

lemma handler_post_cases:
  assumes "handler_post P e w req = (r, w', calls)"
  shows "(calls = [] \<and> w' = w \<and> (\<forall>res u f c. r = Inr res \<longrightarrow> body res \<noteq> PostCreated u f c)) \<or>
         (\<exists>b titleStr bodyStr. publishPost P e w b titleStr bodyStr = (r, w', calls))"
  using assms unfolding handler_post_def Let_def
  by (auto split: if_splits sum.splits)

lemma publishPost_trace:
  assumes "publishPost P e w b titleStr bodyStr = (r, w', calls)" "calls \<noteq> []"
  shows "\<exists>stem chkReply putReply w1 payload.
           calls = [(\<lparr>rq_method = ''GET'',
                      rq_url = contentsUrl (interpolated (GITHUB_REPO e)) (''_posts/'' @ stem @ ''.md''),
                      rq_token = interpolated (GITHUB_TOKEN e),
                      rq_userAgent = ''site-post-writer'', rq_body = None\<rparr>, chkReply),
                    (\<lparr>rq_method = ''PUT'',
                      rq_url = contentsUrl (interpolated (GITHUB_REPO e))
                        (if foundFile chkReply
                         then ''_posts/'' @ stem @ ''-'' @ timestamp6 (fst (dateNow P w1)) @ ''.md''
                         else ''_posts/'' @ stem @ ''.md''),
                      rq_token = interpolated (GITHUB_TOKEN e),
                      rq_userAgent = ''site-post-writer'', rq_body = Some payload\<rparr>, putReply)] \<and>
           sha payload = JUndefined"
proof -
  from assms obtain info slug md w3 c where
    c: "commitToGitHub_post P w3 (interpolated (GITHUB_TOKEN e)) (interpolated (GITHUB_REPO e))
          (''_posts/'' @ postFilename info slug (getProp b ''filename'')) md
          (''feat: add post: '' @ slug) = (c, w', calls)"
    unfolding publishPost_def Let_def
    by (auto split: prod.splits sum.splits)
  obtain stem where "postFilename info slug (getProp b ''filename'') = stem @ ''.md''"
    using postFilename_md by blast
  then have "''_posts/'' @ postFilename info slug (getProp b ''filename'')
      = (''_posts/'' @ stem) @ ''.md''" by simp
  with c have "commitToGitHub_post P w3 (interpolated (GITHUB_TOKEN e))
      (interpolated (GITHUB_REPO e)) ((''_posts/'' @ stem) @ ''.md'') md
      (''feat: add post: '' @ slug) = (c, w', calls)" by simp
  from commitToGitHub_post_trace [OF this]
  obtain chkReply putReply w1 payload where
    "calls = [(\<lparr>rq_method = ''GET'',
                rq_url = contentsUrl (interpolated (GITHUB_REPO e)) ((''_posts/'' @ stem) @ ''.md''),
                rq_token = interpolated (GITHUB_TOKEN e),
                rq_userAgent = ''site-post-writer'', rq_body = None\<rparr>, chkReply),
              (\<lparr>rq_method = ''PUT'',
                rq_url = contentsUrl (interpolated (GITHUB_REPO e))
                  (if foundFile chkReply
                   then (''_posts/'' @ stem) @ ''-'' @ timestamp6 (fst (dateNow P w1)) @ ''.md''
                   else (''_posts/'' @ stem) @ ''.md''),
                rq_token = interpolated (GITHUB_TOKEN e),
                rq_userAgent = ''site-post-writer'', rq_body = Some payload\<rparr>, putReply)]"
    and "sha payload = JUndefined"
    by blast
  then show ?thesis
    by (intro exI [of _ stem] exI [of _ chkReply] exI [of _ putReply] exI [of _ w1]
        exI [of _ payload]) simp
qed

lemma publishPost_created:
  assumes "publishPost P e w b titleStr bodyStr = (Inr res, w', calls)"
    "body res = PostCreated u f c"
  shows "status res = 200"
proof -
  have "body (respondToError e error) \<noteq> PostCreated u f c" for error
    by (simp add: respondToError_def)
  with assms show ?thesis
    unfolding publishPost_def Let_def
    by (auto split: prod.splits sum.splits dest: postCreatedResponse_status)
qed

text \<open>
  C2, as amended. Post creation and note creation make no call of \<^verbatim>\<open>fetch\<close> and
  leave the world as it is for every request whose \<^verbatim>\<open>x-access-key\<close> header is absent,
  empty or different from \<^verbatim>\<open>WRITE_ACCESS_KEY\<close>; when such a request is a POST and the
  three variables of the server are set, the response is the 401. (An OPTIONS request
  is answered 200, another method 405 and a server without its variables 500, before
  the key is looked at.) The like counter has no key check at all.
\<close>

theorem write_handlers_require_key:
  assumes "unset (req_xAccessKey req) \<or> req_xAccessKey req \<noteq> WRITE_ACCESS_KEY e"
  shows "snd (handler_post P e w req) = (w, []) \<and>
         snd (handler_note P e w req) = (w, []) \<and>
         (req_method req = ''POST'' \<and> \<not> unset (GITHUB_TOKEN e) \<and> \<not> unset (GITHUB_REPO e)
            \<and> \<not> unset (WRITE_ACCESS_KEY e) \<longrightarrow>
          fst (handler_post P e w req)
            = Inr \<lparr>status = 401, body = ErrorBody InvalidAccessKey\<rparr> \<and>
          fst (handler_note P e w req)
            = Inr \<lparr>status = 401, body = ErrorBody InvalidAccessKey\<rparr>)"
  using handler_post_unauthorised [OF assms, of P w] handler_note_unauthorised [OF assms, of P w]
  by simp

theorem write_handlers_require_key_witness:
  "handler_post samplePlatform sampleEnv sampleRepo
     \<lparr>req_method = ''POST'', req_xAccessKey = Some ''guess'',
      req_body = JObj [(''title'', JStr ''Hi''), (''body'', JStr ''x'')], req_queryId = None\<rparr>
   = (Inr \<lparr>status = 401, body = ErrorBody InvalidAccessKey\<rparr>, sampleRepo, []) \<and>
   handler_note samplePlatform sampleEnv sampleRepo
     \<lparr>req_method = ''POST'', req_xAccessKey = None,
      req_body = JObj [(''title'', JStr ''Hi''), (''content'', JStr ''x''),
        (''tags'', JArr [JStr ''t''])], req_queryId = None\<rparr>
   = (Inr \<lparr>status = 401, body = ErrorBody InvalidAccessKey\<rparr>, sampleRepo, [])"
proof -
  let ?r1 = "\<lparr>req_method = ''POST'', req_xAccessKey = Some ''guess'',
      req_body = JObj [(''title'', JStr ''Hi''), (''body'', JStr ''x'')], req_queryId = None\<rparr>"
  let ?r2 = "\<lparr>req_method = ''POST'', req_xAccessKey = None,
      req_body = JObj [(''title'', JStr ''Hi''), (''content'', JStr ''x''),
        (''tags'', JArr [JStr ''t''])], req_queryId = None\<rparr>"
  have k1: "unset (req_xAccessKey ?r1) \<or> req_xAccessKey ?r1 \<noteq> WRITE_ACCESS_KEY sampleEnv"
    by (simp add: sampleEnv_def)
  have k2: "unset (req_xAccessKey ?r2) \<or> req_xAccessKey ?r2 \<noteq> WRITE_ACCESS_KEY sampleEnv"
    by (simp add: sampleEnv_def)
  have c: "\<not> unset (GITHUB_TOKEN sampleEnv) \<and> \<not> unset (GITHUB_REPO sampleEnv)
      \<and> \<not> unset (WRITE_ACCESS_KEY sampleEnv)"
    by (simp add: sampleEnv_def unset_def)
  from write_handlers_require_key [OF k1, of samplePlatform sampleRepo] c
  have "fst (handler_post samplePlatform sampleEnv sampleRepo ?r1)
      = Inr \<lparr>status = 401, body = ErrorBody InvalidAccessKey\<rparr>"
    and "snd (handler_post samplePlatform sampleEnv sampleRepo ?r1) = (sampleRepo, [])"
    by simp_all
  then have p: "handler_post samplePlatform sampleEnv sampleRepo ?r1
      = (Inr \<lparr>status = 401, body = ErrorBody InvalidAccessKey\<rparr>, sampleRepo, [])"
    by (metis prod.collapse)
  from write_handlers_require_key [OF k2, of samplePlatform sampleRepo] c
  have "fst (handler_note samplePlatform sampleEnv sampleRepo ?r2)
      = Inr \<lparr>status = 401, body = ErrorBody InvalidAccessKey\<rparr>"
    and "snd (handler_note samplePlatform sampleEnv sampleRepo ?r2) = (sampleRepo, [])"
    by simp_all
  then have "handler_note samplePlatform sampleEnv sampleRepo ?r2
      = (Inr \<lparr>status = 401, body = ErrorBody InvalidAccessKey\<rparr>, sampleRepo, [])"
    by (metis prod.collapse)
  with p show ?thesis by simp
qed

text \<open>
  The claim as stated fails for the like counter: a POST without any key header is
  answered 200, and the row has been written to the store.
\<close>

theorem like_handler_without_key_counterexample:
  "handler_likes sampleEnv \<lparr>likes = [], failing = [], repliesWithJson = True\<rparr>
     \<lparr>req_method = ''POST'', req_xAccessKey = None, req_body = JUndefined,
      req_queryId = Some ''/posts/hello/''\<rparr>
   = (\<lparr>status = 200, body = LikeAdded ''posts/hello/'' 1\<rparr>,
      \<lparr>likes = [\<lparr>page_id = ''posts/hello/'', count = 1\<rparr>], failing = [],
       repliesWithJson = True\<rparr>)"
  by (simp add: handler_likes_def incrementLike_def supabaseRequest_def cleanId_def
      sampleEnv_def unset_def Let_def)




text \<open>
  C9. The claim promises a 500 for every failure thrown inside a handler. The
  \<^verbatim>\<open>try\<close> block of note creation starts after the body has been read and checked: a
  POST with the configured key and no body makes the destructuring of \<^verbatim>\<open>req.body\<close>
  throw a TypeError that nothing catches, and so does a title that is a number, whose
  \<^verbatim>\<open>trim\<close> is not a function. The handler ends with the exception: it sends no
  response, neither the 500 nor its \<^verbatim>\<open>details\<close>, and calls nothing. Post creation
  reads the body through \<^verbatim>\<open>req.body || {}\<close> and answers the request without a body
  with the 400 of the missing title.
\<close>

theorem note_failure_outside_try_unanswered:
  "handler_note samplePlatform (sampleEnv\<lparr>NODE_ENV := Some ''development''\<rparr>) sampleRepo
     \<lparr>req_method = ''POST'', req_xAccessKey = Some ''s3cret'', req_body = JUndefined,
      req_queryId = None\<rparr>
   = (Inl TypeError, sampleRepo, []) \<and>
   handler_note samplePlatform (sampleEnv\<lparr>NODE_ENV := Some ''development''\<rparr>) sampleRepo
     \<lparr>req_method = ''POST'', req_xAccessKey = Some ''s3cret'',
      req_body = JObj [(''title'', JNum ''5''), (''content'', JStr ''x''),
        (''tags'', JArr [JStr ''t''])],
      req_queryId = None\<rparr>
   = (Inl TypeError, sampleRepo, []) \<and>
   handler_post samplePlatform (sampleEnv\<lparr>NODE_ENV := Some ''development''\<rparr>) sampleRepo
     \<lparr>req_method = ''POST'', req_xAccessKey = Some ''s3cret'', req_body = JUndefined,
      req_queryId = None\<rparr>
   = (Inr \<lparr>status = 400, body = ErrorBody TitleEmpty\<rparr>, sampleRepo, [])"
  by (simp add: handler_note_def handler_post_def sampleEnv_def unset_def Let_def)

text \<open>
  C10. Post creation never overwrites a file of the repository. A run that gets as far
  as the commit makes two calls: the existence check of a path \<^verbatim>\<open>_posts/\<close>stem\<^verbatim>\<open>.md\<close>,
  and a PUT whose payload has no \<^verbatim>\<open>sha\<close>; when the check has found a file, the PUT
  goes to the path with \<^verbatim>\<open>-\<close> and the last six characters of the clock reading
  inserted before \<^verbatim>\<open>.md\<close>, otherwise to the path checked. The time stamp is six
  decimal digits for every clock reading from 100000 on (any time later than 100 seconds
  after the epoch). On a repository that updates a file only on the condition of its
  current \<^verbatim>\<open>sha\<close>, every file present before the run is unchanged after it, and a
  run that answers with the created post has added exactly one file, at a URL that had
  none.
\<close>

theorem post_creation_never_overwrites:
  "(handler_post P e w req = (r, w', calls) \<longrightarrow>
      calls = [] \<or>
      (\<exists>stem chkReply putReply w1 payload.
         calls = [(\<lparr>rq_method = ''GET'',
                    rq_url = contentsUrl (interpolated (GITHUB_REPO e))
                      (''_posts/'' @ stem @ ''.md''),
                    rq_token = interpolated (GITHUB_TOKEN e),
                    rq_userAgent = ''site-post-writer'', rq_body = None\<rparr>, chkReply),
                  (\<lparr>rq_method = ''PUT'',
                    rq_url = contentsUrl (interpolated (GITHUB_REPO e))
                      (if foundFile chkReply
                       then ''_posts/'' @ stem @ ''-'' @ timestamp6 (fst (dateNow P w1)) @ ''.md''
                       else ''_posts/'' @ stem @ ''.md''),
                    rq_token = interpolated (GITHUB_TOKEN e),
                    rq_userAgent = ''site-post-writer'', rq_body = Some payload\<rparr>, putReply)] \<and>
         sha payload = JUndefined)) \<and>
   (100000 \<le> t \<longrightarrow> length (timestamp6 t) = 6 \<and> (\<forall>c \<in> set (timestamp6 t). isDigit c)) \<and>
   (onGithub Q \<and> handler_post Q e g req = (r, g', calls) \<longrightarrow>
      (\<forall>u f. files g u = Some f \<longrightarrow> files g' u = Some f) \<and>
      ((\<exists>res url name commit. r = Inr res \<and> body res = PostCreated url name commit) \<longrightarrow>
         (\<exists>u f. files g u = None \<and> files g' = (files g)(u := Some f))))"
proof -
  have p1: "handler_post P e w req = (r, w', calls) \<longrightarrow>
      calls = [] \<or>
      (\<exists>stem chkReply putReply w1 payload.
         calls = [(\<lparr>rq_method = ''GET'',
                    rq_url = contentsUrl (interpolated (GITHUB_REPO e))
                      (''_posts/'' @ stem @ ''.md''),
                    rq_token = interpolated (GITHUB_TOKEN e),
                    rq_userAgent = ''site-post-writer'', rq_body = None\<rparr>, chkReply),
                  (\<lparr>rq_method = ''PUT'',
                    rq_url = contentsUrl (interpolated (GITHUB_REPO e))
                      (if foundFile chkReply
                       then ''_posts/'' @ stem @ ''-'' @ timestamp6 (fst (dateNow P w1)) @ ''.md''
                       else ''_posts/'' @ stem @ ''.md''),
                    rq_token = interpolated (GITHUB_TOKEN e),
                    rq_userAgent = ''site-post-writer'', rq_body = Some payload\<rparr>, putReply)] \<and>
         sha payload = JUndefined)"
  proof (rule impI)
    assume h: "handler_post P e w req = (r, w', calls)"
    show "calls = [] \<or>
      (\<exists>stem chkReply putReply w1 payload.
         calls = [(\<lparr>rq_method = ''GET'',
                    rq_url = contentsUrl (interpolated (GITHUB_REPO e))
                      (''_posts/'' @ stem @ ''.md''),
                    rq_token = interpolated (GITHUB_TOKEN e),
                    rq_userAgent = ''site-post-writer'', rq_body = None\<rparr>, chkReply),
                  (\<lparr>rq_method = ''PUT'',
                    rq_url = contentsUrl (interpolated (GITHUB_REPO e))
                      (if foundFile chkReply
                       then ''_posts/'' @ stem @ ''-'' @ timestamp6 (fst (dateNow P w1)) @ ''.md''
                       else ''_posts/'' @ stem @ ''.md''),
                    rq_token = interpolated (GITHUB_TOKEN e),
                    rq_userAgent = ''site-post-writer'', rq_body = Some payload\<rparr>, putReply)] \<and>
         sha payload = JUndefined)"
    proof (cases "calls = []")
      case True
      then show ?thesis by (rule disjI1)
    next
      case False
      from handler_post_committing [OF h False]
      obtain b titleStr bodyStr where
        "publishPost P e w b titleStr bodyStr = (r, w', calls)"
        by (elim exE) (rule that)
      from publishPost_trace [OF this False] show ?thesis by (rule disjI2)
    qed
  qed
  have p2: "100000 \<le> t \<longrightarrow>
      length (timestamp6 t) = 6 \<and> (\<forall>c \<in> set (timestamp6 t). isDigit c)"
    by (rule impI) (rule timestamp6_digits)
  have p3: "onGithub Q \<and> handler_post Q e g req = (r, g', calls) \<longrightarrow>
      (\<forall>u f. files g u = Some f \<longrightarrow> files g' u = Some f) \<and>
      ((\<exists>res url name commit. r = Inr res \<and> body res = PostCreated url name commit) \<longrightarrow>
         (\<exists>u f. files g u = None \<and> files g' = (files g)(u := Some f)))"
  proof (rule impI)
    assume a: "onGithub Q \<and> handler_post Q e g req = (r, g', calls)"
    then have q: "onGithub Q" and h: "handler_post Q e g req = (r, g', calls)"
      by simp_all
    from handler_post_cases [OF h]
    show "(\<forall>u f. files g u = Some f \<longrightarrow> files g' u = Some f) \<and>
      ((\<exists>res url name commit. r = Inr res \<and> body res = PostCreated url name commit) \<longrightarrow>
         (\<exists>u f. files g u = None \<and> files g' = (files g)(u := Some f)))"
    proof
      assume "calls = [] \<and> g' = g \<and>
        (\<forall>res u f c. r = Inr res \<longrightarrow> body res \<noteq> PostCreated u f c)"
      then have same: "g' = g"
        and none: "\<forall>res u f c. r = Inr res \<longrightarrow> body res \<noteq> PostCreated u f c"
        by simp_all
      from none show ?thesis unfolding same by blast
    next
      assume "\<exists>b titleStr bodyStr. publishPost Q e g b titleStr bodyStr = (r, g', calls)"
      then obtain b titleStr bodyStr where
        p: "publishPost Q e g b titleStr bodyStr = (r, g', calls)"
        by (elim exE) (rule that)
      note f = publishPost_files [OF q p]
      show ?thesis
      proof (rule conjI)
        from f show "\<forall>u f. files g u = Some f \<longrightarrow> files g' u = Some f"
          by (rule conjunct1)
        show "(\<exists>res url name commit. r = Inr res \<and> body res = PostCreated url name commit) \<longrightarrow>
           (\<exists>u f. files g u = None \<and> files g' = (files g)(u := Some f))"
        proof (rule impI)
          assume "\<exists>res url name commit. r = Inr res \<and> body res = PostCreated url name commit"
          then obtain res url name commit where r: "r = Inr res"
            and c: "body res = PostCreated url name commit"
            by (elim exE conjE) (rule that)
          from p have "publishPost Q e g b titleStr bodyStr = (Inr res, g', calls)"
            unfolding r .
          from publishPost_created [OF this c] have "status res = 200" .
          with r have "\<exists>res. r = Inr res \<and> status res = 200" by simp
          with f show "\<exists>u f. files g u = None \<and> files g' = (files g)(u := Some f)"
            by simp
        qed
      qed
    qed
  qed
  from p1 p2 p3 show ?thesis by (intro conjI)
qed

text \<open>
  A post whose path is taken: the file is written to the path with the time stamp
  (the clock reads 1793583000123), and the file that was there is as it was.
\<close>

theorem post_creation_never_overwrites_witness:
  "fst (handler_post samplePlatform sampleEnv repoWithPost
     \<lparr>req_method = ''POST'', req_xAccessKey = Some ''s3cret'',
      req_body = JObj [(''title'', JStr ''Hi''), (''body'', JStr ''x'')], req_queryId = None\<rparr>)
   = Inr \<lparr>status = 200,
      body = PostCreated ''/posts/hi/'' ''2026-11-02-093000-post-hi-000123.md''
               (JStr ''commit-1'')\<rparr> \<and>
   files (fst (snd (handler_post samplePlatform sampleEnv repoWithPost
     \<lparr>req_method = ''POST'', req_xAccessKey = Some ''s3cret'',
      req_body = JObj [(''title'', JStr ''Hi''), (''body'', JStr ''x'')], req_queryId = None\<rparr>)))
     ''https://api.github.com/repos/owner/site/contents/_posts/2026-11-02-093000-post-hi.md''
   = Some \<lparr>fileContent = ''first'', fileSha = ''0''\<rparr>"
proof -
  let ?rq = "\<lparr>req_method = ''POST'', req_xAccessKey = Some ''s3cret'',
      req_body = JObj [(''title'', JStr ''Hi''), (''body'', JStr ''x'')], req_queryId = None\<rparr>"
  let ?u = "''https://api.github.com/repos/owner/site/contents/_posts/2026-11-02-093000-post-hi.md''"
  obtain r g' calls where
    h: "handler_post samplePlatform sampleEnv repoWithPost ?rq = (r, g', calls)"
    by (cases "handler_post samplePlatform sampleEnv repoWithPost ?rq") auto
  have q: "onGithub samplePlatform"
    by (simp add: onGithub_def samplePlatform_def)
  have "onGithub samplePlatform \<and>
      handler_post samplePlatform sampleEnv repoWithPost ?rq = (r, g', calls) \<longrightarrow>
      (\<forall>u f. files repoWithPost u = Some f \<longrightarrow> files g' u = Some f) \<and>
      ((\<exists>res url name commit. r = Inr res \<and> body res = PostCreated url name commit) \<longrightarrow>
         (\<exists>u f. files repoWithPost u = None \<and> files g' = (files repoWithPost)(u := Some f)))"
    by (rule conjunct2 [OF conjunct2 [OF post_creation_never_overwrites
          [of samplePlatform sampleEnv repoWithPost ?rq r g' calls 100000 samplePlatform
              repoWithPost]]])
  with q h have kept: "\<forall>u f. files repoWithPost u = Some f \<longrightarrow> files g' u = Some f"
    by simp
  have pre: "files repoWithPost ?u = Some \<lparr>fileContent = ''first'', fileSha = ''0''\<rparr>"
    by (simp add: repoWithPost_def sampleRepo_def)
  have ts: "timestamp6 1793583000123 = ''000123''"
    by (simp add: timestamp6_def showNat.simps digitChar_def)
  have sfx: "suffixedBeforeLastDot ''_posts/2026-11-02-093000-post-hi.md'' x
      = ''_posts/2026-11-02-093000-post-hi-'' @ x @ ''.md''" for x
    using suffixedBeforeLastDot_md [of "''_posts/2026-11-02-093000-post-hi''" x] by simp
  from kept pre have "files g' ?u = Some \<lparr>fileContent = ''first'', fileSha = ''0''\<rparr>"
    by simp
  moreover have "fst (handler_post samplePlatform sampleEnv repoWithPost ?rq)
      = Inr \<lparr>status = 200,
         body = PostCreated ''/posts/hi/'' ''2026-11-02-093000-post-hi-000123.md''
                  (JStr ''commit-1'')\<rparr>"
    by (simp add: post_defs js_defs sample_defs repoWithPost_def Let_def showNat.simps sfx ts)
  ultimately show ?thesis by (simp add: h)
qed

section \<open>Properties of the like counter\<close>

subsection \<open>The rounded addition is exact on safe integers\<close>










subsection \<open>The requests\<close>











end
